theory Spec2Isabelle
  imports Complex_Main
begin

section \<open>Data model\<close>

text \<open>
  Python floats are modelled as \<^typ>\<open>real\<close>, Python integers as \<^typ>\<open>int\<close> and array
  dimensions as \<^typ>\<open>nat\<close>.  The thresholds the program compares against (0.1, 0.6,
  0.7, 2.0, ...) are the exact decimal fractions.  Every reading of the wall clock
  (\<open>time.time()\<close>) inside one call is the parameter \<open>now\<close> of that call.
\<close>

datatype py_error = ZeroDivisionError | KeyError | ValueError | CvError

text \<open>A bounding box is the tuple \<open>(x, y, w, h)\<close>.\<close>

type_synonym bbox = "real \<times> real \<times> real \<times> real"

text \<open>An image (a numpy array): its shape and its pixel data.\<close>

record image =
  img_h :: nat
  img_w :: nat
  img_data :: "nat list"

text \<open>
  What one call \<open>tracker.update(frame)\<close> of an OpenCV tracker does: it returns
  \<open>(True, bbox)\<close>, returns \<open>(False, _)\<close>, or raises.
\<close>

datatype track_result = TrackOk bbox | TrackFail | TrackRaise

type_synonym tracker = "image \<Rightarrow> track_result"

record audio_sig =
  sig_type :: string
  sig_freq :: nat
  sig_waveform :: string

record tracked_object =
  obj_id :: nat
  label :: string
  bbox :: bbox
  tracker :: "tracker option"
  confidence :: real
  audio_signature :: audio_sig
  color :: "nat \<times> nat \<times> nat"
  last_update :: real
  velocity :: "(real \<times> real) option"
  predicted_bbox :: "bbox option"
  threat_score :: real
  is_lost :: bool
  lost_time :: "real option"
  template :: "image option"
  last_template_update :: real
  obj_context :: "string option"
  last_verified :: real

record object_manager =
  objects :: "tracked_object list"
  next_id :: nat

section \<open>config.py\<close>

definition AUDIO_SIGNATURES :: "(string \<times> audio_sig) list" where
  "AUDIO_SIGNATURES =
    [(''person'', \<lparr>sig_type = ''heartbeat'', sig_freq = 80, sig_waveform = ''pulse''\<rparr>),
     (''phone'', \<lparr>sig_type = ''tone'', sig_freq = 440, sig_waveform = ''sine''\<rparr>),
     (''door'', \<lparr>sig_type = ''hum'', sig_freq = 120, sig_waveform = ''sine''\<rparr>),
     (''chair'', \<lparr>sig_type = ''click'', sig_freq = 800, sig_waveform = ''square''\<rparr>),
     (''table'', \<lparr>sig_type = ''click'', sig_freq = 600, sig_waveform = ''square''\<rparr>),
     (''cup'', \<lparr>sig_type = ''tone'', sig_freq = 660, sig_waveform = ''sine''\<rparr>),
     (''obstacle'', \<lparr>sig_type = ''warning'', sig_freq = 1000, sig_waveform = ''sawtooth''\<rparr>),
     (''default'', \<lparr>sig_type = ''tone'', sig_freq = 330, sig_waveform = ''sine''\<rparr>)]"

definition THREAT_PRIORITIES :: "(string \<times> real) list" where
  "THREAT_PRIORITIES =
    [(''person'', 1), (''car'', 1), (''truck'', 1), (''bus'', 1), (''door'', 8/10),
     (''stairs'', 9/10), (''wall'', 7/10), (''tree'', 8/10), (''pole'', 8/10),
     (''obstacle'', 9/10), (''chair'', 4/10), (''table'', 4/10), (''couch'', 4/10),
     (''bed'', 4/10), (''tv'', 3/10), (''laptop'', 2/10), (''phone'', 1/10),
     (''cup'', 1/10), (''bottle'', 1/10), (''book'', 1/10), (''pen'', 5/100),
     (''default'', 3/10)]"

definition MAX_AZIMUTH_DEGREES :: real where
  "MAX_AZIMUTH_DEGREES = 80"

definition MOTION_PREDICTION_ENABLED :: bool where
  "MOTION_PREDICTION_ENABLED = True"

definition PREDICTION_HORIZON_SECONDS :: real where
  "PREDICTION_HORIZON_SECONDS = 5/10"

definition MIN_VELOCITY_THRESHOLD :: real where
  "MIN_VELOCITY_THRESHOLD = 5"

text \<open>The zones in the order of the dictionary: name, \<open>min\<close>, \<open>max\<close>.\<close>

definition PROXIMITY_ZONES :: "(string \<times> real \<times> real) list" where
  "PROXIMITY_ZONES =
    [(''safe'', 0, 3/10), (''caution'', 3/10, 6/10), (''warning'', 6/10, 1)]"

section \<open>object\_manager.py\<close>

definition color_palette :: "(nat \<times> nat \<times> nat) list" where
  "color_palette =
    [(255, 0, 0), (0, 255, 0), (0, 0, 255), (255, 255, 0), (255, 0, 255), (0, 255, 255)]"

text \<open>\<open>dict.get(key, default)\<close> on a dictionary kept as an association list.\<close>

definition dict_get :: "('k \<times> 'v) list \<Rightarrow> 'k \<Rightarrow> 'v \<Rightarrow> 'v" where
  "dict_get d k dflt = (case map_of d k of Some v \<Rightarrow> v | None \<Rightarrow> dflt)"

text \<open>\<open>d[key]\<close>: raises \<open>KeyError\<close> when the key is missing.\<close>

definition dict_index :: "('k \<times> 'v) list \<Rightarrow> 'k \<Rightarrow> py_error + 'v" where
  "dict_index d k = (case map_of d k of Some v \<Rightarrow> Inr v | None \<Rightarrow> Inl KeyError)"

text \<open>
  \<open>add_object\<close>: the signature is looked up by the label (with the \<open>default\<close> entry as
  fallback, which is read first), the colour is taken round-robin from the palette, the
  new object is appended and \<open>next_id\<close> is advanced.  It returns the new object with the
  manager.
\<close>

definition add_object ::
  "real \<Rightarrow> string \<Rightarrow> bbox \<Rightarrow> real \<Rightarrow> string option \<Rightarrow> object_manager
     \<Rightarrow> py_error + (tracked_object \<times> object_manager)" where
  "add_object now lbl bb conf ctx om =
    (case dict_index AUDIO_SIGNATURES ''default'' of
       Inl e \<Rightarrow> Inl e
     | Inr dflt \<Rightarrow>
        let audio_sig = dict_get AUDIO_SIGNATURES lbl dflt;
            col = color_palette ! (next_id om mod length color_palette);
            obj = \<lparr>obj_id = next_id om, label = lbl, bbox = bb, tracker = None,
                   confidence = conf, audio_signature = audio_sig, color = col,
                   last_update = now, velocity = None, predicted_bbox = None,
                   threat_score = 0, is_lost = False, lost_time = None, template = None,
                   last_template_update = 0, obj_context = ctx, last_verified = now\<rparr>
        in Inr (obj, om\<lparr>objects := objects om @ [obj], next_id := next_id om + 1\<rparr>))"

definition remove_object :: "nat \<Rightarrow> object_manager \<Rightarrow> object_manager" where
  "remove_object oid om = om\<lparr>objects := filter (\<lambda>obj. obj_id obj \<noteq> oid) (objects om)\<rparr>"

text \<open>
  \<open>compute_iou\<close>: intersection over union of two boxes, 0 when the union is empty.
\<close>

definition compute_iou :: "bbox \<Rightarrow> bbox \<Rightarrow> real" where
  "compute_iou box1 box2 =
    (case box1 of (x1, y1, w1, h1) \<Rightarrow> case box2 of (x2, y2, w2, h2) \<Rightarrow>
      let xA = max x1 x2;
          yA = max y1 y2;
          xB = min (x1 + w1) (x2 + w2);
          yB = min (y1 + h1) (y2 + h2);
          interArea = max 0 (xB - xA) * max 0 (yB - yA);
          box1Area = w1 * h1;
          box2Area = w2 * h2
      in if box1Area + box2Area - interArea = 0 then 0
         else interArea / (box1Area + box2Area - interArea))"

text \<open>
  \<open>cleanup_stale_trackers\<close>: keeps the objects with \<open>now - last_verified < max_age\<close>;
  returns whether the list got shorter, with the manager.
\<close>

definition cleanup_stale_trackers ::
  "real \<Rightarrow> real \<Rightarrow> object_manager \<Rightarrow> bool \<times> object_manager" where
  "cleanup_stale_trackers now max_age om =
    (let active_count = length (objects om);
         kept = filter (\<lambda>obj. now - last_verified obj < max_age) (objects om);
         removed = int active_count - int (length kept)
     in (removed > 0, om\<lparr>objects := kept\<rparr>))"

text \<open>
  \<open>get_proximity_zone\<close>: the first zone, in dictionary order, whose interval
  \<open>min \<le> ratio < max\<close> holds the ratio of the box area to the frame area, and
  \<open>safe\<close> when there is none.  The zone table is a parameter; the program passes
  \<^const>\<open>PROXIMITY_ZONES\<close>.  A box tuple of four numbers is never falsy, so the first
  test of the source never fires.  The division raises when the frame area is 0.
\<close>

fun find_zone :: "(string \<times> real \<times> real) list \<Rightarrow> real \<Rightarrow> string" where
  "find_zone [] size_ratio = ''safe''"
| "find_zone ((zone_name, zmin, zmax) # zs) size_ratio =
    (if zmin \<le> size_ratio \<and> size_ratio < zmax then zone_name else find_zone zs size_ratio)"

definition get_proximity_zone_in ::
  "(string \<times> real \<times> real) list \<Rightarrow> tracked_object \<Rightarrow> nat \<Rightarrow> nat \<Rightarrow> py_error + string" where
  "get_proximity_zone_in zones obj frame_width frame_height =
    (case bbox obj of (x, y, w, h) \<Rightarrow>
      let obj_area = w * h;
          frame_area = frame_width * frame_height
      in if frame_area = 0 then Inl ZeroDivisionError
         else Inr (find_zone zones (obj_area / real frame_area)))"

definition get_proximity_zone :: "tracked_object \<Rightarrow> nat \<Rightarrow> nat \<Rightarrow> py_error + string" where
  "get_proximity_zone = get_proximity_zone_in PROXIMITY_ZONES"

text \<open>
  \<open>update_velocity\<close>: the velocity is the displacement of the box centre; the box
  and \<open>last_update\<close> are replaced.  (The test \<open>if self.bbox\<close> holds for every tuple
  of four numbers.)
\<close>

definition update_velocity :: "real \<Rightarrow> bbox \<Rightarrow> tracked_object \<Rightarrow> tracked_object" where
  "update_velocity now new_bbox obj =
    (case bbox obj of (ox, oy, ow, oh) \<Rightarrow> case new_bbox of (nx, ny, nw, nh) \<Rightarrow>
      let old_center_x = ox + ow / 2;
          old_center_y = oy + oh / 2;
          new_center_x = nx + nw / 2;
          new_center_y = ny + nh / 2;
          vx = new_center_x - old_center_x;
          vy = new_center_y - old_center_y
      in obj\<lparr>velocity := Some (vx, vy), bbox := new_bbox, last_update := now\<rparr>)"

text \<open>\<open>int(x)\<close> on a float: truncation towards zero.\<close>

definition py_int :: "real \<Rightarrow> int" where
  "py_int r = (if r < 0 then \<lceil>r\<rceil> else \<lfloor>r\<rfloor>)"

definition predict_position :: "real \<Rightarrow> tracked_object \<Rightarrow> tracked_object" where
  "predict_position horizon_seconds obj =
    (case velocity obj of
       None \<Rightarrow> obj\<lparr>predicted_bbox := Some (bbox obj)\<rparr>
     | Some (vx, vy) \<Rightarrow>
         if \<bar>vx\<bar> < MIN_VELOCITY_THRESHOLD \<and> \<bar>vy\<bar> < MIN_VELOCITY_THRESHOLD
         then obj\<lparr>predicted_bbox := Some (bbox obj)\<rparr>
         else
           (case bbox obj of (x, y, w, h) \<Rightarrow>
             let frames_ahead = horizon_seconds * 30;
                 pred_x = x + vx * frames_ahead;
                 pred_y = y + vy * frames_ahead
             in obj\<lparr>predicted_bbox :=
                      Some (real_of_int (py_int pred_x), real_of_int (py_int pred_y), w, h)\<rparr>))"

text \<open>
  \<open>str.lower()\<close> on the characters whose code point is below 256, and the last
  field of \<open>split(" ")\<close>: the text after the last space.
\<close>

definition py_lower_char :: "char \<Rightarrow> char" where
  "py_lower_char c =
    (let n = of_char c :: nat
     in if (65 \<le> n \<and> n \<le> 90) \<or> (192 \<le> n \<and> n \<le> 222 \<and> n \<noteq> 215)
        then char_of (n + 32) else c)"

definition py_lower :: "string \<Rightarrow> string" where
  "py_lower s = map py_lower_char s"

definition last_word :: "string \<Rightarrow> string" where
  "last_word s = rev (takeWhile (\<lambda>c. c \<noteq> CHR '' '') (rev s))"

text \<open>
  The threat score block of \<open>update_trackers\<close>, for the box the tracker returned.
  Both divisions raise \<open>ZeroDivisionError\<close> on a frame without area; the semantic
  score is computed as in the source.
\<close>

definition compute_threat :: "image \<Rightarrow> bbox \<Rightarrow> string \<Rightarrow> py_error + real" where
  "compute_threat frame bb lbl =
    (case bb of (x, y, w, h) \<Rightarrow>
      let area = w * h;
          frame_area = real (img_h frame * img_w frame)
      in if frame_area * (5/10) = 0 then Inl ZeroDivisionError
         else
           let size_score = min 1 (area / (frame_area * (5/10)));
               label_key = last_word (py_lower lbl)
           in case dict_index THREAT_PRIORITIES ''default'' of
                Inl e \<Rightarrow> Inl e
              | Inr dflt \<Rightarrow>
                  let semantic_score = dict_get THREAT_PRIORITIES label_key dflt;
                      center_x = x + w / 2;
                      frame_center_x = real (img_w frame) / 2
                  in if real (img_w frame) / 2 = 0 then Inl ZeroDivisionError
                     else
                       let dist_from_center =
                             \<bar>center_x - frame_center_x\<bar> / (real (img_w frame) / 2);
                           centrality_score = 1 - min 1 dist_from_center
                       in Inr (size_score * (7/10) + centrality_score * (3/10)))"

text \<open>
  The body of the loop of \<open>update_trackers\<close> for one object: the object as updated,
  and whether it joins the list \<open>tracked\<close>.  An exception of the tracker or of the
  score computation is caught by the source: the object keeps what was assigned before
  it and is not tracked.
\<close>

definition mark_lost :: "real \<Rightarrow> tracked_object \<Rightarrow> tracked_object" where
  "mark_lost now obj =
    (if \<not> is_lost obj then obj\<lparr>is_lost := True, lost_time := Some now\<rparr> else obj)"

definition update_tracker :: "real \<Rightarrow> image \<Rightarrow> tracked_object \<Rightarrow> tracked_object \<times> bool" where
  "update_tracker now frame obj =
    (case tracker obj of
       None \<Rightarrow> (mark_lost now obj, False)
     | Some trk \<Rightarrow>
         (case trk frame of
            TrackRaise \<Rightarrow> (obj, False)
          | TrackFail \<Rightarrow> (mark_lost now obj, False)
          | TrackOk new_bbox \<Rightarrow>
              let obj1 = update_velocity now new_bbox obj;
                  obj2 = obj1\<lparr>is_lost := False, lost_time := None\<rparr>;
                  obj3 = (if MOTION_PREDICTION_ENABLED
                          then predict_position PREDICTION_HORIZON_SECONDS obj2 else obj2)
              in case compute_threat frame new_bbox (label obj3) of
                   Inl e \<Rightarrow> (obj3, False)
                 | Inr score \<Rightarrow> (obj3\<lparr>threat_score := score\<rparr>, True)))"

text \<open>\<open>update_trackers\<close>: the tracked objects, with the manager.\<close>

definition update_trackers ::
  "real \<Rightarrow> image \<Rightarrow> object_manager \<Rightarrow> tracked_object list \<times> object_manager" where
  "update_trackers now frame om =
    (if objects om = [] then ([], om)
     else
       let results = map (update_tracker now frame) (objects om)
       in (map fst (filter snd results), om\<lparr>objects := map fst results\<rparr>))"

section \<open>mode\_controller.py\<close>

text \<open>
  One detection record of the vision service: the dictionary keys \<open>box_2d\<close> and
  \<open>label\<close>, each of which may be missing.
\<close>

record detection =
  box_2d :: "int list option"
  det_label :: "string option"

text \<open>
  The conversion of \<open>[y_min, x_min, y_max, x_max]\<close> (0 to 1000) to a pixel box, clamped
  to the frame.  \<open>None\<close> is the \<open>continue\<close> of the source: a list that has not four
  entries, or a box under 5 pixels wide or high.
\<close>

definition convert_box :: "int list \<Rightarrow> nat \<Rightarrow> nat \<Rightarrow> bbox option" where
  "convert_box box frame_width frame_height =
    (case box of
       [y_min, x_min, y_max, x_max] \<Rightarrow>
         let x0 = py_int (real_of_int (x_min * int frame_width) / 1000);
             y0 = py_int (real_of_int (y_min * int frame_height) / 1000);
             w0 = py_int (real_of_int ((x_max - x_min) * int frame_width) / 1000);
             h0 = py_int (real_of_int ((y_max - y_min) * int frame_height) / 1000);
             x = max 0 (min x0 (int frame_width - 1));
             y = max 0 (min y0 (int frame_height - 1));
             w = max 1 (min w0 (int frame_width - x));
             h = max 1 (min h0 (int frame_height - y))
         in if w < 5 \<or> h < 5 then None
            else Some (real_of_int x, real_of_int y, real_of_int w, real_of_int h)
     | _ \<Rightarrow> None)"

text \<open>
  \<open>re.search(r"^(.*?)\[(.*?)\]", label)\<close>: the two groups, when the pattern matches.
  Both groups are lazy and the dot does not match a newline, so the match is the text
  before the first opening bracket and the text up to the first closing bracket after
  it, provided neither holds a newline.
\<close>

definition re_context :: "string \<Rightarrow> (string \<times> string) option" where
  "re_context s =
    (let pre = takeWhile (\<lambda>c. c \<noteq> CHR ''['') s;
         rest = dropWhile (\<lambda>c. c \<noteq> CHR ''['') s
     in if rest = [] \<or> CHR 0x0A \<in> set pre then None
        else
          let inner = takeWhile (\<lambda>c. c \<noteq> CHR '']'') (tl rest);
              after = dropWhile (\<lambda>c. c \<noteq> CHR '']'') (tl rest)
          in if after = [] \<or> CHR 0x0A \<in> set inner then None else Some (pre, inner))"

text \<open>\<open>str.strip()\<close>, on the characters whose code point is below 256.\<close>

definition py_isspace :: "char \<Rightarrow> bool" where
  "py_isspace c =
    (let n = of_char c :: nat
     in (9 \<le> n \<and> n \<le> 13) \<or> (28 \<le> n \<and> n \<le> 32) \<or> n = 133 \<or> n = 160)"

definition strip :: "string \<Rightarrow> string" where
  "strip s = rev (dropWhile py_isspace (rev (dropWhile py_isspace s)))"

definition parse_label :: "string \<Rightarrow> string \<times> string option" where
  "parse_label lbl =
    (case re_context lbl of
       Some (g1, g2) \<Rightarrow> (strip g1, Some (strip g2))
     | None \<Rightarrow> (lbl, None))"

text \<open>
  The inner loop of \<open>process_detections\<close> over the existing objects, for one detection
  with clean label \<open>lbl\<close>, context \<open>ctx\<close> and pixel box \<open>new_bbox\<close>.  It returns the
  objects as updated and the flag \<open>matched\<close>; the \<open>break\<close> leaves the rest of the list
  as it is.
\<close>

fun match_existing ::
  "real \<Rightarrow> string \<Rightarrow> string option \<Rightarrow> bbox \<Rightarrow> tracked_object list
     \<Rightarrow> tracked_object list \<times> bool" where
  "match_existing now lbl ctx new_bbox [] = ([], False)"
| "match_existing now lbl ctx new_bbox (existing_obj # rest) =
    (if label existing_obj = lbl then
       let iou = compute_iou (bbox existing_obj) new_bbox;
           should_update_bbox =
             (if is_lost existing_obj then iou > 1/10 else iou > 6/10);
           obj1 = (if should_update_bbox then existing_obj\<lparr>bbox := new_bbox\<rparr>
                   else existing_obj)
       in if iou > 1/10 then
            (obj1\<lparr>last_verified := now, obj_context := ctx, is_lost := False,
                  lost_time := None\<rparr> # rest, True)
          else
            (case match_existing now lbl ctx new_bbox rest of
               (rest', matched) \<Rightarrow> (obj1 # rest', matched))
     else
       (case match_existing now lbl ctx new_bbox rest of
          (rest', matched) \<Rightarrow> (existing_obj # rest', matched)))"

text \<open>\<open>det.get("box_2d", [])\<close> and \<open>det.get("label", "unknown")\<close>.\<close>

definition get_box_2d :: "detection \<Rightarrow> int list" where
  "get_box_2d det = (case box_2d det of Some b \<Rightarrow> b | None \<Rightarrow> [])"

definition get_label :: "detection \<Rightarrow> string" where
  "get_label det = (case det_label det of Some l \<Rightarrow> l | None \<Rightarrow> ''unknown'')"

text \<open>
  The body of the loop over the detections: the manager and the running count before
  the record, and after it.  An exception inside the body is caught by the source and
  the loop goes on with the next record.
\<close>

definition process_detection ::
  "real \<Rightarrow> nat \<Rightarrow> nat \<Rightarrow> object_manager \<times> nat \<Rightarrow> detection \<Rightarrow> object_manager \<times> nat" where
  "process_detection now frame_width frame_height st det =
    (case st of (om, count) \<Rightarrow>
      let box = get_box_2d det;
          label0 = get_label det
      in case convert_box box frame_width frame_height of
           None \<Rightarrow> (om, count)
         | Some new_bbox \<Rightarrow>
             (case parse_label label0 of (lbl, ctx) \<Rightarrow>
               (case match_existing now lbl ctx new_bbox (objects om) of
                  (objs, matched) \<Rightarrow>
                    if matched then (om\<lparr>objects := objs\<rparr>, count)
                    else
                      (case add_object now lbl new_bbox 1 ctx (om\<lparr>objects := objs\<rparr>) of
                         Inr (obj, om') \<Rightarrow> (om', count + 1)
                       | Inl e \<Rightarrow> (om\<lparr>objects := objs\<rparr>, count)))))"

text \<open>\<open>process_detections\<close>: the number of objects added, with the manager.\<close>

definition process_detections ::
  "real \<Rightarrow> detection list \<Rightarrow> image \<Rightarrow> object_manager \<Rightarrow> nat \<times> object_manager" where
  "process_detections now detections frame om =
    (if detections = [] then (0, om)
     else
       (case foldl (process_detection now (img_w frame) (img_h frame)) (om, 0) detections of
          (om', count) \<Rightarrow> (count, om')))"

text \<open>
  \<open>get_main_threat\<close>: the head of the objects sorted by threat score, descending.
  Python's sort is stable also with \<open>reverse=True\<close>, as is the insertion sort on the
  negated key.
\<close>

definition get_main_threat :: "object_manager \<Rightarrow> tracked_object option" where
  "get_main_threat om =
    (if objects om = [] then None
     else Some (hd (sort_key (\<lambda>obj. - threat_score obj) (objects om))))"

text \<open>
  \<open>check_lost_threats\<close>.  The test \<open>main_threat.lost_time\<close> is Python's truth test
  of an optional float: it fails for \<open>None\<close> and for the timestamp 0.
\<close>

definition check_lost_threats :: "real \<Rightarrow> object_manager \<Rightarrow> bool \<times> object_manager" where
  "check_lost_threats now om =
    (case get_main_threat om of
       None \<Rightarrow> (False, om)
     | Some main_threat \<Rightarrow>
         (case lost_time main_threat of
            Some t \<Rightarrow>
              if is_lost main_threat \<and> t \<noteq> 0 then
                let elapsed = now - t
                in if threat_score main_threat > 3/10 \<and> elapsed > 2
                   then (True, remove_object (obj_id main_threat) om)
                   else (False, om)
              else (False, om)
          | None \<Rightarrow> (False, om)))"

section \<open>audio\_hrtf.py\<close>

text \<open>
  An OpenAL source with the properties the program sets.  A source is identified with
  the object id that owns it in \<open>self.sources\<close>, so the controller's dictionary and
  the device's sources are one map from object ids to sources.
\<close>

record al_source =
  al_buffer :: "nat option"
  al_looping :: bool
  al_playing :: bool
  al_position :: "real \<times> real \<times> real"
  al_gain :: real

text \<open>A source as \<open>alGenSources\<close> hands it out.\<close>

definition alGenSources :: al_source where
  "alGenSources =
    \<lparr>al_buffer = None, al_looping = False, al_playing = False, al_position = (0, 0, 0),
     al_gain = 1\<rparr>"

text \<open>\<open>sub in s\<close> on strings.\<close>

fun py_in :: "string \<Rightarrow> string \<Rightarrow> bool" where
  "py_in sub [] = (sub = [])"
| "py_in sub (c # cs) = (take (length sub) (c # cs) = sub \<or> py_in sub cs)"

text \<open>
  The distance and the gain that \<open>_update_scene\<close> computes from the area of a box,
  against the fixed 1280 by 720 reference frame.  The division raises when
  \<open>area + 1\<close> is 0 and \<open>math.sqrt\<close> raises on a negative argument.
\<close>

definition spatial_gain :: "bbox \<Rightarrow> py_error + (real \<times> real)" where
  "spatial_gain bb =
    (case bb of (x, y, w, h) \<Rightarrow>
      let width = 1280;
          height = 720;
          area = w * h;
          max_area = width * height * (5/10)
      in if area + 1 = 0 then Inl ZeroDivisionError
         else if max_area / (area + 1) < 0 then Inl ValueError
         else
           let distance = max (5/10) (min 10 (sqrt (max_area / (area + 1))));
               ref_dist = 1;
               gain0 = min 1 (ref_dist / (distance * (5/10)));
               gain = max (1/10) gain0
           in Inr (distance, gain))"

text \<open>The maximum threat score as the inner loop accumulates it, from 0.\<close>

definition max_threat_of :: "tracked_object list \<Rightarrow> real" where
  "max_threat_of objs = foldl (\<lambda>max_threat obj. max max_threat (threat_score obj)) 0 objs"

text \<open>
  The source created for a new object id: the buffer is chosen by the label, with the
  \<open>default\<close> buffer when the lookup gives nothing (or the buffer name 0); with a
  buffer the source loops and plays.
\<close>

definition new_source :: "(string \<times> nat) list \<Rightarrow> tracked_object \<Rightarrow> al_source" where
  "new_source bufs obj =
    (let sig_name = (if py_in ''person'' (label obj) then ''person''
                     else if py_in ''door'' (label obj) then ''door''
                     else ''default'');
         buf = (case map_of bufs sig_name of
                  Some b \<Rightarrow> if b \<noteq> 0 then Some b else map_of bufs ''default''
                | None \<Rightarrow> map_of bufs ''default'')
     in case buf of
          Some b \<Rightarrow>
            if b \<noteq> 0
            then alGenSources\<lparr>al_buffer := Some b, al_looping := True, al_playing := True\<rparr>
            else alGenSources
        | None \<Rightarrow> alGenSources)"

text \<open>
  The body of the loop of \<open>_update_scene\<close> for one object of the snapshot
  \<open>objs\<close>: position, base gain, ducking against the maximum threat of the snapshot.
\<close>

definition scene_object ::
  "tracked_object list \<Rightarrow> (string \<times> nat) list \<Rightarrow> tracked_object \<Rightarrow> (nat \<rightharpoonup> al_source)
     \<Rightarrow> py_error + (nat \<rightharpoonup> al_source)" where
  "scene_object objs bufs obj srcs =
    (case bbox obj of (x, y, w, h) \<Rightarrow>
      let cx = x + w / 2;
          cy = y + h / 2;
          width = 1280;
          height = 720;
          norm_x = (cx / width) * 2 - 1;
          norm_y = - ((cy / height) * 2 - 1)
      in case spatial_gain (bbox obj) of
           Inl e \<Rightarrow> Inl e
         | Inr (distance, gain) \<Rightarrow>
             let pos_x = norm_x * distance * 2;
                 pos_y = norm_y * distance;
                 pos_z = - distance;
                 source = (case srcs (obj_id obj) of
                             None \<Rightarrow> new_source bufs obj
                           | Some s \<Rightarrow> s);
                 base_gain = gain;
                 max_threat = max_threat_of objs;
                 final_gain = (if threat_score obj < max_threat * (8/10)
                               then base_gain * (3/10) else base_gain)
             in Inr (srcs(obj_id obj \<mapsto>
                       source\<lparr>al_position := (pos_x, pos_y, pos_z), al_gain := final_gain\<rparr>)))"

fun scene_loop ::
  "tracked_object list \<Rightarrow> (string \<times> nat) list \<Rightarrow> tracked_object list
     \<Rightarrow> (nat \<rightharpoonup> al_source) \<Rightarrow> py_error + (nat \<rightharpoonup> al_source)" where
  "scene_loop objs bufs [] srcs = Inr srcs"
| "scene_loop objs bufs (obj # rest) srcs =
    (case scene_object objs bufs obj srcs of
       Inl e \<Rightarrow> Inl e
     | Inr srcs1 \<Rightarrow> scene_loop objs bufs rest srcs1)"

text \<open>
  \<open>_update_scene\<close>: nothing without OpenAL; otherwise every object of the snapshot is
  processed and the sources of the ids that left the snapshot are deleted.  An
  exception ends the update; the result is then the exception alone, without the
  sources that were set before it.
\<close>

definition update_scene ::
  "bool \<Rightarrow> (string \<times> nat) list \<Rightarrow> tracked_object list \<Rightarrow> (nat \<rightharpoonup> al_source)
     \<Rightarrow> py_error + (nat \<rightharpoonup> al_source)" where
  "update_scene OPENAL_AVAILABLE bufs objs srcs =
    (if \<not> OPENAL_AVAILABLE then Inr srcs
     else
       (case scene_loop objs bufs objs srcs of
          Inl e \<Rightarrow> Inl e
        | Inr srcs1 \<Rightarrow> Inr (srcs1 |` (obj_id ` set objs))))"

section \<open>audio\_module\_multi.py\<close>

text \<open>
  One entry of \<open>self.sources\<close>: a dictionary with the keys \<open>azimuth\<close>, \<open>volume\<close>,
  \<open>signature\<close> and \<open>position\<close>, each read with a default.
\<close>

record source_data =
  azimuth :: "real option"
  volume :: "real option"
  signature :: "string option"
  position :: "nat option"

definition np_clip :: "real \<Rightarrow> real \<Rightarrow> real \<Rightarrow> real" where
  "np_clip a a_min a_max = min (max a a_min) a_max"

text \<open>\<open>arr.max()\<close> of a non-empty array.\<close>

definition np_max :: "real list \<Rightarrow> real" where
  "np_max xs = fold max (tl xs) (hd xs)"

text \<open>
  The body of the mixing loop for one source: its contribution to the left and to the
  right channel, and the source with its position advanced.  \<open>self.signatures["default"]\<close>
  raises when the table has no default, and \<open>position % n_sig_samples\<close> raises on an
  empty signature.
\<close>

definition mix_source ::
  "(string \<times> real list) list \<Rightarrow> nat \<Rightarrow> source_data
     \<Rightarrow> py_error + (real list \<times> real list \<times> source_data)" where
  "mix_source signatures frames sd =
    (let az = (case azimuth sd of Some a \<Rightarrow> a | None \<Rightarrow> 0);
         vol = (case volume sd of Some v \<Rightarrow> v | None \<Rightarrow> 5/10);
         signature_name = (case signature sd of Some s \<Rightarrow> s | None \<Rightarrow> ''default'');
         pos = (case position sd of Some p \<Rightarrow> p | None \<Rightarrow> 0)
     in case dict_index signatures ''default'' of
          Inl e \<Rightarrow> Inl e
        | Inr dflt \<Rightarrow>
            let sig = dict_get signatures signature_name dflt;
                pan = np_clip (az / MAX_AZIMUTH_DEGREES) (- 1) 1;
                angle = (pan + 1) * pi / 4;
                left_gain = cos angle * vol;
                right_gain = sin angle * vol;
                n_sig_samples = length sig
            in if 0 < frames \<and> n_sig_samples = 0 then Inl ZeroDivisionError
               else
                 let samples = map (\<lambda>i. sig ! ((pos + i) mod n_sig_samples)) [0..<frames]
                 in Inr (map (\<lambda>s. s * left_gain) samples,
                         map (\<lambda>s. s * right_gain) samples,
                         sd\<lparr>position := Some (pos + frames)\<rparr>))"

text \<open>
  The loop over the sources, in the order of the dictionary: the channels with every
  contribution added, and the sources as updated.  An exception leaves the callback;
  the result is then the exception alone.
\<close>

fun mix_sources ::
  "(string \<times> real list) list \<Rightarrow> nat \<Rightarrow> (nat \<times> source_data) list \<Rightarrow> real list \<Rightarrow> real list
     \<Rightarrow> py_error + (real list \<times> real list \<times> (nat \<times> source_data) list)" where
  "mix_sources signatures frames [] left_channel right_channel =
    Inr (left_channel, right_channel, [])"
| "mix_sources signatures frames ((oid, sd) # rest) left_channel right_channel =
    (case mix_source signatures frames sd of
       Inl e \<Rightarrow> Inl e
     | Inr (l, r, sd') \<Rightarrow>
         (case mix_sources signatures frames rest
                 (map (\<lambda>(a, b). a + b) (zip left_channel l))
                 (map (\<lambda>(a, b). a + b) (zip right_channel r)) of
            Inl e \<Rightarrow> Inl e
          | Inr (left_out, right_out, rest') \<Rightarrow> Inr (left_out, right_out, (oid, sd') # rest')))"

text \<open>
  \<open>_audio_callback\<close>: the two columns of \<open>outdata\<close> and the sources.  The maximum of
  an empty array raises.
\<close>

definition audio_callback ::
  "(string \<times> real list) list \<Rightarrow> nat \<Rightarrow> (nat \<times> source_data) list
     \<Rightarrow> py_error + (real list \<times> real list \<times> (nat \<times> source_data) list)" where
  "audio_callback signatures frames srcs =
    (case mix_sources signatures frames srcs (replicate frames 0) (replicate frames 0) of
       Inl e \<Rightarrow> Inl e
     | Inr (left_channel, right_channel, srcs') \<Rightarrow>
         if frames = 0 then Inl ValueError
         else
           let max_val = max (np_max (map abs left_channel)) (np_max (map abs right_channel))
           in if max_val > 1
              then Inr (map (\<lambda>x. x / max_val) left_channel,
                        map (\<lambda>x. x / max_val) right_channel, srcs')
              else Inr (left_channel, right_channel, srcs'))"

section \<open>vision\_module.py\<close>

text \<open>
  The result of \<open>cv2.minMaxLoc\<close> on the response of \<open>cv2.matchTemplate\<close>.  OpenCV is
  outside the repository: the matcher is a parameter of \<open>attempt_local_recovery\<close>,
  which returns the four values or raises.
\<close>

record min_max_loc =
  min_val :: real
  max_val :: real
  min_loc :: "nat \<times> nat"
  max_loc :: "nat \<times> nat"

definition attempt_local_recovery ::
  "(image \<Rightarrow> image \<Rightarrow> py_error + min_max_loc) \<Rightarrow> image \<Rightarrow> tracked_object
     \<Rightarrow> bool \<times> bbox option" where
  "attempt_local_recovery match_template frame tracked_obj =
    (case template tracked_obj of
       None \<Rightarrow> (False, None)
     | Some templ \<Rightarrow>
         let h_templ = img_h templ;
             w_templ = img_w templ;
             h_frame = img_h frame;
             w_frame = img_w frame
         in if h_templ > h_frame \<or> w_templ > w_frame then (False, None)
            else
              (case match_template frame templ of
                 Inl e \<Rightarrow> (False, None)
               | Inr res \<Rightarrow>
                   if max_val res > 7/10 then
                     let top_left = max_loc res;
                         bbox = (real (fst top_left), real (snd top_left),
                                 real w_templ, real h_templ)
                     in (True, Some bbox)
                   else (False, None)))"

section \<open>Concrete states\<close>

text \<open>An object with no tracker yet, for the concrete examples below.\<close>

definition mk_object :: "nat \<Rightarrow> string \<Rightarrow> bbox \<Rightarrow> tracked_object" where
  "mk_object i lbl bb =
    \<lparr>obj_id = i, label = lbl, bbox = bb, tracker = None, confidence = 1,
     audio_signature = \<lparr>sig_type = ''tone'', sig_freq = 330, sig_waveform = ''sine''\<rparr>,
     color = color_palette ! (i mod length color_palette),
     last_update = 0, velocity = None, predicted_bbox = None, threat_score = 0,
     is_lost = False, lost_time = None, template = None, last_template_update = 0,
     obj_context = None, last_verified = 0\<rparr>"

text \<open>
  An object verified 30 seconds ago, with \<open>max_age = 30\<close>: its age is not more than
  \<open>max_age\<close>, and the pass removes it.
\<close>

definition stale_boundary :: object_manager where
  "stale_boundary = \<lparr>objects = [mk_object 0 ''cup'' (0, 0, 10, 10)], next_id = 1\<rparr>"

definition stale_pair :: object_manager where
  "stale_pair =
    \<lparr>objects = [mk_object 0 ''cup'' (0, 0, 10, 10),
                (mk_object 1 ''door'' (5, 5, 20, 20))\<lparr>last_verified := 90\<rparr>],
     next_id = 2\<rparr>"

text \<open>
  A lost person of threat score 0.5, lost at time 10, and a tracked cup of score 0.2.
\<close>

definition threat_pair :: object_manager where
  "threat_pair =
    \<lparr>objects = [(mk_object 0 ''person'' (0, 0, 100, 100))
                   \<lparr>threat_score := 1/2, is_lost := True, lost_time := Some 10\<rparr>,
                (mk_object 1 ''cup'' (0, 0, 100, 90))\<lparr>threat_score := 1/5\<rparr>],
     next_id = 2\<rparr>"

text \<open>
  A 1000 by 1000 frame (on which the 0 to 1000 coordinates of a detection are pixels), a
  detection labelled \<open>cup [on table]\<close>, and managers holding one tracked cup, one
  lost cup, and two lost cups.
\<close>

definition frame1000 :: image where
  "frame1000 = \<lparr>img_h = 1000, img_w = 1000, img_data = []\<rparr>"

definition cup_det :: "int list \<Rightarrow> detection" where
  "cup_det box = \<lparr>box_2d = Some box, det_label = Some ''cup [on table]''\<rparr>"

definition one_cup :: object_manager where
  "one_cup = \<lparr>objects = [mk_object 0 ''cup'' (0, 0, 100, 100)], next_id = 1\<rparr>"

definition lost_cup :: object_manager where
  "lost_cup =
    \<lparr>objects = [(mk_object 0 ''cup'' (0, 0, 100, 100))\<lparr>is_lost := True, lost_time := Some 10\<rparr>],
     next_id = 1\<rparr>"

definition twin_cups :: object_manager where
  "twin_cups =
    \<lparr>objects = [(mk_object 0 ''cup'' (0, 0, 100, 100))\<lparr>is_lost := True, lost_time := Some 10\<rparr>,
                (mk_object 1 ''cup'' (0, 0, 100, 80))\<lparr>is_lost := True, lost_time := Some 10\<rparr>],
     next_id = 2\<rparr>"

text \<open>
  A 640 by 480 frame and three objects: a cup whose tracker succeeds, a door whose
  tracker fails, and a person without a tracker.
\<close>

definition frame640 :: image where
  "frame640 = \<lparr>img_h = 480, img_w = 640, img_data = []\<rparr>"

definition tracked_trio :: object_manager where
  "tracked_trio =
    \<lparr>objects = [(mk_object 0 ''Red Cup'' (100, 100, 50, 50))
                   \<lparr>tracker := Some (\<lambda>f. TrackOk (120, 100, 320, 240))\<rparr>,
                (mk_object 1 ''door'' (0, 0, 64, 48))
                   \<lparr>tracker := Some (\<lambda>f. TrackFail), threat_score := 1/4\<rparr>,
                (mk_object 2 ''person'' (10, 10, 64, 48))\<lparr>threat_score := 3/4\<rparr>],
     next_id = 3\<rparr>"

text \<open>
  The snapshot of the ducking example: threat scores 1.0, 0.5 and 0.1, on boxes of
  600 by 600, 200 by 200 and 50 by 50 pixels.
\<close>

definition ducking_trio :: "tracked_object list" where
  "ducking_trio =
    [(mk_object 0 ''person'' (0, 0, 600, 600))\<lparr>threat_score := 1\<rparr>,
     (mk_object 1 ''door'' (700, 0, 200, 200))\<lparr>threat_score := 1/2\<rparr>,
     (mk_object 2 ''cup'' (1000, 300, 50, 50))\<lparr>threat_score := 1/10\<rparr>]"

text \<open>
  A 500 by 500 frame, a 50 by 50 template, a matcher that reports its best match of
  score 0.95 at \<open>(300, 300)\<close>, and one whose best score is exactly 0.7.
\<close>

definition frame500 :: image where
  "frame500 = \<lparr>img_h = 500, img_w = 500, img_data = []\<rparr>"

definition patch50 :: image where
  "patch50 = \<lparr>img_h = 50, img_w = 50, img_data = []\<rparr>"

definition found_at_300 :: "image \<Rightarrow> image \<Rightarrow> py_error + min_max_loc" where
  "found_at_300 frame templ =
    Inr \<lparr>min_val = - 1/10, max_val = 95/100, min_loc = (0, 0), max_loc = (300, 300)\<rparr>"

definition weak_match :: "image \<Rightarrow> image \<Rightarrow> py_error + min_max_loc" where
  "weak_match frame templ =
    Inr \<lparr>min_val = - 1/10, max_val = 7/10, min_loc = (0, 0), max_loc = (300, 300)\<rparr>"

text \<open>
  Two sources at full volume, panned hard left, on a signature of three samples.
\<close>

definition loud_signatures :: "(string \<times> real list) list" where
  "loud_signatures = [(''default'', [1, - 1, 1/2])]"

definition loud_sources :: "(nat \<times> source_data) list" where
  "loud_sources =
    [(0, \<lparr>azimuth = Some (- 80), volume = Some 1, signature = Some ''phone'',
          position = Some 0\<rparr>),
     (1, \<lparr>azimuth = Some (- 80), volume = Some 1, signature = Some ''default'',
          position = Some 0\<rparr>)]"

section \<open>Staleness eviction\<close>

lemma cleanup_removed_iff:
  "length (filter P xs) < length xs \<longleftrightarrow> (\<exists>x\<in>set xs. \<not> P x)"
proof (induction xs)
  case Nil
  then show ?case by simp
next
  case (Cons a xs)
  have "length (filter P xs) \<le> length xs" by simp
  with Cons show ?case by auto
qed

text \<open>
  C5, as the code has it.  The pass removes exactly the objects whose age
  \<open>now - last_verified\<close> is at least \<open>max_age\<close> (the boundary included), keeps the
  others in their order, and returns true exactly when some object was removed.
\<close>

theorem cleanup_stale_trackers_removes_at_least_max_age:
  "objects (snd (cleanup_stale_trackers now max_age om))
     = filter (\<lambda>obj. \<not> max_age \<le> now - last_verified obj) (objects om)
   \<and> (fst (cleanup_stale_trackers now max_age om)
        \<longleftrightarrow> (\<exists>obj\<in>set (objects om). max_age \<le> now - last_verified obj))"
proof -
  have eq: "(\<lambda>obj. now - last_verified obj < max_age)
          = (\<lambda>obj. \<not> max_age \<le> now - last_verified obj)"
    by (auto simp: not_le)
  have "fst (cleanup_stale_trackers now max_age om)
      \<longleftrightarrow> length (filter (\<lambda>obj. now - last_verified obj < max_age) (objects om))
            < length (objects om)"
    by (simp add: cleanup_stale_trackers_def Let_def)
  also have "\<dots> \<longleftrightarrow> (\<exists>obj\<in>set (objects om). \<not> now - last_verified obj < max_age)"
    by (rule cleanup_removed_iff)
  finally show ?thesis
    by (simp add: cleanup_stale_trackers_def Let_def eq not_less)
qed

theorem cleanup_stale_trackers_boundary_counterexample:
  "\<not> 30 < 30 - last_verified (objects stale_boundary ! 0)
   \<and> objects (snd (cleanup_stale_trackers 30 30 stale_boundary)) = []
   \<and> fst (cleanup_stale_trackers 30 30 stale_boundary)"
  by (simp add: stale_boundary_def mk_object_def cleanup_stale_trackers_def)

theorem cleanup_stale_trackers_witness:
  "map obj_id (objects (snd (cleanup_stale_trackers 100 30 stale_pair))) = [1]
   \<and> fst (cleanup_stale_trackers 100 30 stale_pair)"
  using cleanup_stale_trackers_removes_at_least_max_age [of 100 30 stale_pair]
  by (simp add: stale_pair_def mk_object_def)

section \<open>Proximity zones\<close>

lemma find_zone_none:
  "\<forall>z\<in>set zones. \<not> (fst (snd z) \<le> r \<and> r < snd (snd z)) \<Longrightarrow> find_zone zones r = ''safe''"
  by (induction zones r rule: find_zone.induct) auto

text \<open>
  C10.  With a frame of non-zero area: when the ratio of the box area to the frame area
  lies in none of the intervals \<open>[min, max)\<close> of the zone table, the zone is \<open>safe\<close>;
  with the configured table this is so for every ratio of at least 1, so an object that
  covers the whole frame is classified \<open>safe\<close>.
\<close>

theorem get_proximity_zone_outside_every_zone_is_safe:
  assumes "bbox obj = (x, y, w, h)"
    and "frame_width * frame_height \<noteq> 0"
  shows "((\<forall>z\<in>set zones. \<not> (fst (snd z) \<le> w * h / real (frame_width * frame_height)
                              \<and> w * h / real (frame_width * frame_height) < snd (snd z)))
          \<longrightarrow> get_proximity_zone_in zones obj frame_width frame_height = Inr ''safe'')
       \<and> (1 \<le> w * h / real (frame_width * frame_height)
          \<longrightarrow> get_proximity_zone obj frame_width frame_height = Inr ''safe'')"
proof (intro conjI impI)
  assume "\<forall>z\<in>set zones. \<not> (fst (snd z) \<le> w * h / real (frame_width * frame_height)
                              \<and> w * h / real (frame_width * frame_height) < snd (snd z))"
  then have "find_zone zones (w * h / real (frame_width * frame_height)) = ''safe''"
    by (rule find_zone_none)
  with assms show "get_proximity_zone_in zones obj frame_width frame_height = Inr ''safe''"
    by (simp add: get_proximity_zone_in_def)
next
  assume big: "1 \<le> w * h / real (frame_width * frame_height)"
  have "find_zone PROXIMITY_ZONES r = ''safe''" if "1 \<le> r" for r :: real
    using that by (simp add: PROXIMITY_ZONES_def)
  from this [OF big] assms show "get_proximity_zone obj frame_width frame_height = Inr ''safe''"
    by (simp add: get_proximity_zone_def get_proximity_zone_in_def)
qed

text \<open>A 640 by 480 box in a 640 by 480 frame: the ratio is 1 and the zone is \<open>safe\<close>.\<close>

theorem get_proximity_zone_witness:
  "get_proximity_zone (mk_object 0 ''wall'' (0, 0, 640, 480)) 640 480 = Inr ''safe''
   \<and> get_proximity_zone_in PROXIMITY_ZONES (mk_object 0 ''wall'' (0, 0, 640, 480)) 640 480
       = Inr ''safe''"
  using get_proximity_zone_outside_every_zone_is_safe
    [of "mk_object 0 ''wall'' (0, 0, 640, 480)" 0 0 640 480 640 480 PROXIMITY_ZONES]
  by (simp add: mk_object_def PROXIMITY_ZONES_def)

section \<open>Main-threat timeout\<close>

lemma hd_sort_key_min:
  assumes "xs \<noteq> []"
  shows "hd (sort_key f xs) \<in> set xs \<and> (\<forall>x\<in>set xs. f (hd (sort_key f xs)) \<le> f x)"
proof -
  define zs where "zs = sort_key f xs"
  have set_zs: "set zs = set xs" by (simp add: zs_def)
  have sorted_zs: "sorted (map f zs)" unfolding zs_def by (rule sorted_sort_key)
  from assms set_zs have "zs \<noteq> []" by auto
  then obtain y ys where ys: "zs = y # ys" by (cases zs) auto
  from sorted_zs ys have "\<forall>x\<in>set zs. f y \<le> f x" by auto
  moreover have "y \<in> set zs" using ys by simp
  moreover have "hd zs = y" using ys by simp
  ultimately have "hd zs \<in> set xs \<and> (\<forall>x\<in>set xs. f (hd zs) \<le> f x)"
    unfolding set_zs by simp
  then show ?thesis unfolding zs_def .
qed

lemma get_main_threat_max:
  assumes "get_main_threat om = Some mt"
  shows "mt \<in> set (objects om) \<and> (\<forall>obj\<in>set (objects om). threat_score obj \<le> threat_score mt)"
proof -
  from assms have ne: "objects om \<noteq> []"
    and mt: "mt = hd (sort_key (\<lambda>obj. - threat_score obj) (objects om))"
    by (auto simp: get_main_threat_def split: if_splits)
  from hd_sort_key_min [OF ne, of "\<lambda>obj. - threat_score obj"] mt show ?thesis by auto
qed

lemma check_lost_threats_fst:
  "fst (check_lost_threats now om) \<longleftrightarrow>
     (\<exists>mt t. get_main_threat om = Some mt \<and> is_lost mt \<and> lost_time mt = Some t \<and> t \<noteq> 0
        \<and> 2 < now - t \<and> 3/10 < threat_score mt)"
  by (auto simp: check_lost_threats_def Let_def split: option.splits)

lemma check_lost_threats_snd_true:
  "fst (check_lost_threats now om) \<Longrightarrow> get_main_threat om = Some mt \<Longrightarrow>
     snd (check_lost_threats now om) = remove_object (obj_id mt) om"
  by (auto simp: check_lost_threats_def Let_def split: option.splits if_splits)

lemma check_lost_threats_snd_false:
  "\<not> fst (check_lost_threats now om) \<Longrightarrow> snd (check_lost_threats now om) = om"
  by (auto simp: check_lost_threats_def Let_def split: option.splits if_splits)

text \<open>
  C4.  \<open>check_lost_threats\<close> returns true exactly when the main threat is lost, its
  \<open>lost_time\<close> is set (to a timestamp other than 0, which Python's truth test
  takes for unset and no clock reading equals), more than 2 seconds have passed since
  and its score exceeds 0.3.  The main threat is an object of the list of maximal threat
  score.  On true, the objects with the main threat's id are removed and nothing else
  changes, so the main threat of the state left behind is another object; on false the
  state is unchanged.
\<close>

theorem check_lost_threats_signals_and_evicts:
  "(fst (check_lost_threats now om) \<longleftrightarrow>
     (\<exists>mt t. get_main_threat om = Some mt \<and> is_lost mt \<and> lost_time mt = Some t \<and> t \<noteq> 0
        \<and> 2 < now - t \<and> 3/10 < threat_score mt))
   \<and> (\<forall>mt. get_main_threat om = Some mt \<longrightarrow>
         mt \<in> set (objects om)
         \<and> (\<forall>obj\<in>set (objects om). threat_score obj \<le> threat_score mt)
         \<and> (fst (check_lost_threats now om) \<longrightarrow>
               objects (snd (check_lost_threats now om))
                 = filter (\<lambda>obj. obj_id obj \<noteq> obj_id mt) (objects om)
               \<and> next_id (snd (check_lost_threats now om)) = next_id om
               \<and> (\<forall>mt'. get_main_threat (snd (check_lost_threats now om)) = Some mt'
                      \<longrightarrow> obj_id mt' \<noteq> obj_id mt)))
   \<and> (\<not> fst (check_lost_threats now om) \<longrightarrow> snd (check_lost_threats now om) = om)"
proof (intro conjI allI impI)
  show "fst (check_lost_threats now om) \<longleftrightarrow>
     (\<exists>mt t. get_main_threat om = Some mt \<and> is_lost mt \<and> lost_time mt = Some t \<and> t \<noteq> 0
        \<and> 2 < now - t \<and> 3/10 < threat_score mt)"
    by (rule check_lost_threats_fst)
next
  fix mt assume "get_main_threat om = Some mt"
  then show "mt \<in> set (objects om)" by (simp add: get_main_threat_max)
next
  fix mt assume "get_main_threat om = Some mt"
  then show "\<forall>obj\<in>set (objects om). threat_score obj \<le> threat_score mt"
    by (simp add: get_main_threat_max)
next
  fix mt assume mt: "get_main_threat om = Some mt" and t: "fst (check_lost_threats now om)"
  then show "objects (snd (check_lost_threats now om))
                 = filter (\<lambda>obj. obj_id obj \<noteq> obj_id mt) (objects om)"
    by (simp add: check_lost_threats_snd_true remove_object_def)
next
  fix mt assume mt: "get_main_threat om = Some mt" and t: "fst (check_lost_threats now om)"
  then show "next_id (snd (check_lost_threats now om)) = next_id om"
    by (simp add: check_lost_threats_snd_true remove_object_def)
next
  fix mt mt'
  assume mt: "get_main_threat om = Some mt" and t: "fst (check_lost_threats now om)"
    and mt': "get_main_threat (snd (check_lost_threats now om)) = Some mt'"
  from mt t have "objects (snd (check_lost_threats now om))
                 = filter (\<lambda>obj. obj_id obj \<noteq> obj_id mt) (objects om)"
    by (simp add: check_lost_threats_snd_true remove_object_def)
  moreover from mt' have "mt' \<in> set (objects (snd (check_lost_threats now om)))"
    by (simp add: get_main_threat_max)
  ultimately show "obj_id mt' \<noteq> obj_id mt" by simp
next
  assume "\<not> fst (check_lost_threats now om)"
  then show "snd (check_lost_threats now om) = om" by (rule check_lost_threats_snd_false)
qed

text \<open>
  The lost person is signalled at time 13 and removed; a call right after gives false.
\<close>

theorem check_lost_threats_witness:
  "fst (check_lost_threats 13 threat_pair)
   \<and> map obj_id (objects (snd (check_lost_threats 13 threat_pair))) = [1]
   \<and> \<not> fst (check_lost_threats 14 (snd (check_lost_threats 13 threat_pair)))"
proof -
  note th = check_lost_threats_signals_and_evicts [of 13 threat_pair]
  have gm: "get_main_threat threat_pair = Some (objects threat_pair ! 0)"
    by (simp add: get_main_threat_def threat_pair_def mk_object_def)
  have a: "fst (check_lost_threats 13 threat_pair)"
    by (simp add: check_lost_threats_def gm) (simp add: threat_pair_def mk_object_def)
  from th gm a have objs: "objects (snd (check_lost_threats 13 threat_pair))
     = filter (\<lambda>obj. obj_id obj \<noteq> obj_id (objects threat_pair ! 0)) (objects threat_pair)"
    by blast
  then have ids: "map obj_id (objects (snd (check_lost_threats 13 threat_pair))) = [1]"
    by (simp add: threat_pair_def mk_object_def)
  from objs have "get_main_threat (snd (check_lost_threats 13 threat_pair))
      = Some ((mk_object 1 ''cup'' (0, 0, 100, 90))\<lparr>threat_score := 1/5\<rparr>)"
    by (simp add: get_main_threat_def threat_pair_def mk_object_def)
  then have "\<not> fst (check_lost_threats 14 (snd (check_lost_threats 13 threat_pair)))"
    by (simp add: check_lost_threats_def mk_object_def)
  with a ids show ?thesis by simp
qed

section \<open>Detection reconciliation\<close>

lemma match_existing_none:
  "\<forall>e\<in>set es. \<not> (label e = lbl \<and> 1/10 < compute_iou (bbox e) nb)
     \<Longrightarrow> match_existing now lbl ctx nb es = (es, False)"
  by (induction es) (auto simp: Let_def)

lemma match_existing_first:
  assumes "\<forall>p\<in>set pre. \<not> (label p = lbl \<and> 1/10 < compute_iou (bbox p) nb)"
    and "label e = lbl" and "1/10 < compute_iou (bbox e) nb"
  shows "match_existing now lbl ctx nb (pre @ e # post)
       = (pre @ e\<lparr>bbox := (if is_lost e \<or> 6/10 < compute_iou (bbox e) nb then nb else bbox e),
                  last_verified := now, obj_context := ctx, is_lost := False,
                  lost_time := None\<rparr> # post, True)"
  using assms by (induction pre) (auto simp: Let_def)

lemma match_existing_matched:
  "snd (match_existing now lbl ctx nb es)
     \<longleftrightarrow> (\<exists>e\<in>set es. label e = lbl \<and> 1/10 < compute_iou (bbox e) nb)"
  by (induction es) (auto simp: Let_def split: prod.splits)

lemma match_existing_ids:
  "map obj_id (fst (match_existing now lbl ctx nb es)) = map obj_id es"
  by (induction es) (auto simp: Let_def split: prod.splits)

lemma add_object_Inr:
  "add_object now lbl bb conf ctx om =
     Inr (\<lparr>obj_id = next_id om, label = lbl, bbox = bb, tracker = None, confidence = conf,
           audio_signature = dict_get AUDIO_SIGNATURES lbl
              \<lparr>sig_type = ''tone'', sig_freq = 330, sig_waveform = ''sine''\<rparr>,
           color = color_palette ! (next_id om mod 6),
           last_update = now, velocity = None, predicted_bbox = None, threat_score = 0,
           is_lost = False, lost_time = None, template = None, last_template_update = 0,
           obj_context = ctx, last_verified = now\<rparr>,
          om\<lparr>objects := objects om @
            [\<lparr>obj_id = next_id om, label = lbl, bbox = bb, tracker = None, confidence = conf,
           audio_signature = dict_get AUDIO_SIGNATURES lbl
              \<lparr>sig_type = ''tone'', sig_freq = 330, sig_waveform = ''sine''\<rparr>,
           color = color_palette ! (next_id om mod 6),
           last_update = now, velocity = None, predicted_bbox = None, threat_score = 0,
           is_lost = False, lost_time = None, template = None, last_template_update = 0,
           obj_context = ctx, last_verified = now\<rparr>], next_id := next_id om + 1\<rparr>)"
  by (simp add: add_object_def dict_index_def AUDIO_SIGNATURES_def Let_def color_palette_def)

text \<open>
  C1, as the code has it.  One detection is matched to one object: the first object of
  the list, in order, whose label equals the detection's clean label and whose box
  overlaps the converted box with IoU above 0.1.  That object takes the new box when it
  is lost or the IoU is above 0.6 and keeps its box otherwise; in both cases it is
  marked verified now, takes the detection's context, and \<open>is_lost\<close> and
  \<open>lost_time\<close> are cleared.  Every other object, the later ones of the same label
  included, is left as it was, and no object is created.
\<close>

theorem process_detection_updates_first_overlapping_same_label:
  assumes "convert_box (get_box_2d det) frame_width frame_height = Some new_bbox"
    and "parse_label (get_label det) = (lbl, ctx)"
    and "objects om = pre @ e # post"
    and "\<forall>p\<in>set pre. \<not> (label p = lbl \<and> 1/10 < compute_iou (bbox p) new_bbox)"
    and "label e = lbl"
    and "1/10 < compute_iou (bbox e) new_bbox"
  shows "process_detection now frame_width frame_height (om, count) det
       = (om\<lparr>objects :=
               pre @ e\<lparr>bbox := (if is_lost e \<or> 6/10 < compute_iou (bbox e) new_bbox
                                  then new_bbox else bbox e),
                        last_verified := now, obj_context := ctx, is_lost := False,
                        lost_time := None\<rparr> # post\<rparr>, count)"
  using assms match_existing_first [OF assms(4,5,6), of now ctx post]
  by (simp add: process_detection_def)

lemma process_detection_no_box:
  "convert_box (get_box_2d det) fw fh = None \<Longrightarrow>
     process_detection now fw fh (om, count) det = (om, count)"
  by (simp add: process_detection_def)

lemma process_detection_matched:
  assumes "convert_box (get_box_2d det) fw fh = Some nb"
    and "parse_label (get_label det) = (lbl, ctx)"
    and "\<exists>e\<in>set (objects om). label e = lbl \<and> 1/10 < compute_iou (bbox e) nb"
  shows "process_detection now fw fh (om, count) det
       = (om\<lparr>objects := fst (match_existing now lbl ctx nb (objects om))\<rparr>, count)"
proof -
  from assms(3) have "snd (match_existing now lbl ctx nb (objects om))"
    by (simp add: match_existing_matched)
  then obtain objs where "match_existing now lbl ctx nb (objects om) = (objs, True)"
    by (cases "match_existing now lbl ctx nb (objects om)") auto
  with assms(1,2) show ?thesis
    by (simp add: process_detection_def)
qed

lemma process_detection_unmatched:
  assumes "convert_box (get_box_2d det) fw fh = Some nb"
    and "parse_label (get_label det) = (lbl, ctx)"
    and "\<not> (\<exists>e\<in>set (objects om). label e = lbl \<and> 1/10 < compute_iou (bbox e) nb)"
  shows "process_detection now fw fh (om, count) det
       = (om\<lparr>objects := objects om @
            [\<lparr>obj_id = next_id om, label = lbl, bbox = nb, tracker = None, confidence = 1,
              audio_signature = dict_get AUDIO_SIGNATURES lbl
                \<lparr>sig_type = ''tone'', sig_freq = 330, sig_waveform = ''sine''\<rparr>,
              color = color_palette ! (next_id om mod 6),
              last_update = now, velocity = None, predicted_bbox = None, threat_score = 0,
              is_lost = False, lost_time = None, template = None, last_template_update = 0,
              obj_context = ctx, last_verified = now\<rparr>],
            next_id := next_id om + 1\<rparr>, count + 1)"
proof -
  from assms(3) have "match_existing now lbl ctx nb (objects om) = (objects om, False)"
    by (intro match_existing_none) blast
  with assms(1,2) show ?thesis
    by (simp add: process_detection_def add_object_Inr)
qed

lemma process_detection_count:
  "snd (process_detection now fw fh (om, count) det) + length (objects om)
     = count + length (objects (fst (process_detection now fw fh (om, count) det)))"
proof (cases "convert_box (get_box_2d det) fw fh")
  case None
  then show ?thesis by (simp add: process_detection_no_box)
next
  case (Some nb)
  obtain lbl ctx where pl: "parse_label (get_label det) = (lbl, ctx)"
    by (cases "parse_label (get_label det)")
  show ?thesis
  proof (cases "\<exists>e\<in>set (objects om). label e = lbl \<and> 1/10 < compute_iou (bbox e) nb")
    case True
    have "length (fst (match_existing now lbl ctx nb (objects om))) = length (objects om)"
      using match_existing_ids [of now lbl ctx nb "objects om"] by (metis length_map)
    then show ?thesis by (simp add: process_detection_matched [OF Some pl True])
  next
    case False
    then show ?thesis by (simp add: process_detection_unmatched [OF Some pl False])
  qed
qed

lemma foldl_process_detection_count:
  "snd (foldl (process_detection now fw fh) (om, count) dets) + length (objects om)
     = count + length (objects (fst (foldl (process_detection now fw fh) (om, count) dets)))"
proof (induction dets arbitrary: om count)
  case Nil
  then show ?case by simp
next
  case (Cons det dets)
  obtain om1 c1 where st: "process_detection now fw fh (om, count) det = (om1, c1)"
    by (cases "process_detection now fw fh (om, count) det")
  from process_detection_count [of now fw fh om count det] st
  have "c1 + length (objects om) = count + length (objects om1)" by simp
  moreover from Cons.IH [of om1 c1]
  have "snd (foldl (process_detection now fw fh) (om1, c1) dets) + length (objects om1)
     = c1 + length (objects (fst (foldl (process_detection now fw fh) (om1, c1) dets)))" .
  ultimately show ?case by (simp add: st)
qed

lemma process_detections_count:
  "fst (process_detections now dets frame om) + length (objects om)
     = length (objects (snd (process_detections now dets frame om)))"
proof (cases "dets = []")
  case True
  then show ?thesis by (simp add: process_detections_def)
next
  case False
  obtain om1 c1 where
    st: "foldl (process_detection now (img_w frame) (img_h frame)) (om, 0) dets = (om1, c1)"
    by (cases "foldl (process_detection now (img_w frame) (img_h frame)) (om, 0) dets")
  from foldl_process_detection_count [of now "img_w frame" "img_h frame" om 0 dets] st
  have "c1 + length (objects om) = length (objects om1)" by simp
  with False st show ?thesis by (simp add: process_detections_def)
qed

text \<open>
  Ids are handed out from \<open>next_id\<close>: every id of the list stays below it.
\<close>

lemma process_detection_ids_below_next_id:
  assumes "\<forall>e\<in>set (objects om). obj_id e < next_id om"
  shows "\<forall>e\<in>set (objects (fst (process_detection now fw fh (om, count) det))).
           obj_id e < next_id (fst (process_detection now fw fh (om, count) det))"
proof (cases "convert_box (get_box_2d det) fw fh")
  case None
  with assms show ?thesis by (simp add: process_detection_no_box)
next
  case (Some nb)
  obtain lbl ctx where pl: "parse_label (get_label det) = (lbl, ctx)"
    by (cases "parse_label (get_label det)")
  show ?thesis
  proof (cases "\<exists>e\<in>set (objects om). label e = lbl \<and> 1/10 < compute_iou (bbox e) nb")
    case True
    have "obj_id ` set (fst (match_existing now lbl ctx nb (objects om)))
        = obj_id ` set (objects om)"
      using match_existing_ids [of now lbl ctx nb "objects om"] by (metis set_map)
    with assms have "\<forall>e\<in>set (fst (match_existing now lbl ctx nb (objects om))).
        obj_id e < next_id om"
      by (metis imageE imageI)
    then show ?thesis
      by (simp add: process_detection_matched [OF Some pl True])
  next
    case False
    with assms show ?thesis
      by (auto simp: process_detection_unmatched [OF Some pl False] less_Suc_eq)
  qed
qed

text \<open>
  C3, as the code has it.  A record whose box does not convert (not four coordinates,
  or under 5 by 5 pixels) changes nothing.  Otherwise a new object is created exactly
  when no existing object has both the clean label of the record and a box of IoU above
  0.1 with the converted box: it is appended with id \<open>next_id\<close>, the palette colour
  of that id and the audio signature of its label, and it is counted; the id is new
  when the ids of the list are below \<open>next_id\<close>.  When there is
  such an object, the ids of the list, \<open>next_id\<close> and the count stay as they were.
  The count returned for a batch is the growth of the list.
\<close>

theorem process_detection_creates_iff_no_overlapping_same_label:
  "(convert_box (get_box_2d det) fw fh = None
      \<longrightarrow> process_detection now fw fh (om, count) det = (om, count))
   \<and> (\<forall>nb lbl ctx.
        convert_box (get_box_2d det) fw fh = Some nb \<and> parse_label (get_label det) = (lbl, ctx)
        \<longrightarrow>
        ((\<exists>e\<in>set (objects om). label e = lbl \<and> 1/10 < compute_iou (bbox e) nb)
           \<longrightarrow> snd (process_detection now fw fh (om, count) det) = count
               \<and> map obj_id (objects (fst (process_detection now fw fh (om, count) det)))
                   = map obj_id (objects om)
               \<and> next_id (fst (process_detection now fw fh (om, count) det)) = next_id om)
        \<and> (\<not> (\<exists>e\<in>set (objects om). label e = lbl \<and> 1/10 < compute_iou (bbox e) nb)
           \<longrightarrow> (\<exists>obj. process_detection now fw fh (om, count) det
                        = (om\<lparr>objects := objects om @ [obj], next_id := next_id om + 1\<rparr>,
                           count + 1)
                    \<and> obj_id obj = next_id om \<and> label obj = lbl \<and> bbox obj = nb
                    \<and> obj_context obj = ctx
                    \<and> color obj = color_palette ! (next_id om mod 6)
                    \<and> audio_signature obj
                        = dict_get AUDIO_SIGNATURES lbl
                            \<lparr>sig_type = ''tone'', sig_freq = 330, sig_waveform = ''sine''\<rparr>
                    \<and> tracker obj = None \<and> \<not> is_lost obj \<and> last_verified obj = now
                    \<and> ((\<forall>e\<in>set (objects om). obj_id e < next_id om)
                          \<longrightarrow> obj_id obj \<notin> obj_id ` set (objects om)))))
   \<and> fst (process_detections now dets frame om) + length (objects om)
       = length (objects (snd (process_detections now dets frame om)))"
proof (intro conjI allI impI)
  assume "convert_box (get_box_2d det) fw fh = None"
  then show "process_detection now fw fh (om, count) det = (om, count)"
    by (rule process_detection_no_box)
next
  show "fst (process_detections now dets frame om) + length (objects om)
       = length (objects (snd (process_detections now dets frame om)))"
    by (rule process_detections_count)
next
  fix nb lbl ctx
  assume a: "convert_box (get_box_2d det) fw fh = Some nb \<and> parse_label (get_label det) = (lbl, ctx)"
    and m: "\<exists>e\<in>set (objects om). label e = lbl \<and> 1/10 < compute_iou (bbox e) nb"
  note eq = process_detection_matched [OF conjunct1 [OF a] conjunct2 [OF a] m, of now count]
  show "snd (process_detection now fw fh (om, count) det) = count" by (simp add: eq)
  show "map obj_id (objects (fst (process_detection now fw fh (om, count) det)))
                   = map obj_id (objects om)" by (simp add: eq match_existing_ids)
  show "next_id (fst (process_detection now fw fh (om, count) det)) = next_id om"
    by (simp add: eq)
next
  fix nb lbl ctx
  assume a: "convert_box (get_box_2d det) fw fh = Some nb \<and> parse_label (get_label det) = (lbl, ctx)"
    and m: "\<not> (\<exists>e\<in>set (objects om). label e = lbl \<and> 1/10 < compute_iou (bbox e) nb)"
  note eq = process_detection_unmatched [OF conjunct1 [OF a] conjunct2 [OF a] m, of now count]
  show "\<exists>obj. process_detection now fw fh (om, count) det
                        = (om\<lparr>objects := objects om @ [obj], next_id := next_id om + 1\<rparr>,
                           count + 1)
                    \<and> obj_id obj = next_id om \<and> label obj = lbl \<and> bbox obj = nb
                    \<and> obj_context obj = ctx
                    \<and> color obj = color_palette ! (next_id om mod 6)
                    \<and> audio_signature obj
                        = dict_get AUDIO_SIGNATURES lbl
                            \<lparr>sig_type = ''tone'', sig_freq = 330, sig_waveform = ''sine''\<rparr>
                    \<and> tracker obj = None \<and> \<not> is_lost obj \<and> last_verified obj = now
                    \<and> ((\<forall>e\<in>set (objects om). obj_id e < next_id om)
                          \<longrightarrow> obj_id obj \<notin> obj_id ` set (objects om))"
    unfolding eq by (rule exI [where x = "\<lparr>obj_id = next_id om, label = lbl, bbox = nb, tracker = None, confidence = 1,
              audio_signature = dict_get AUDIO_SIGNATURES lbl
                \<lparr>sig_type = ''tone'', sig_freq = 330, sig_waveform = ''sine''\<rparr>,
              color = color_palette ! (next_id om mod 6),
              last_update = now, velocity = None, predicted_bbox = None, threat_score = 0,
              is_lost = False, lost_time = None, template = None, last_template_update = 0,
              obj_context = ctx, last_verified = now\<rparr>"]) auto
qed

lemma cup_det_label: "parse_label (get_label (cup_det box)) = (''cup'', Some ''on table'')"
  by (simp add: cup_det_def get_label_def parse_label_def re_context_def strip_def py_isspace_def)

lemma cup_det_box:
  "convert_box (get_box_2d (cup_det [0, 0, 50, 100])) 1000 1000 = Some (0, 0, 100, 50)"
  "convert_box (get_box_2d (cup_det [0, 0, 80, 100])) 1000 1000 = Some (0, 0, 100, 80)"
  "convert_box (get_box_2d (cup_det [0, 0, 20, 100])) 1000 1000 = Some (0, 0, 100, 20)"
  "convert_box (get_box_2d (cup_det [0, 0, 100, 100])) 1000 1000 = Some (0, 0, 100, 100)"
  "convert_box (get_box_2d (cup_det [500, 500, 600, 600])) 1000 1000 = Some (500, 500, 100, 100)"
  by (simp_all add: cup_det_def get_box_2d_def convert_box_def py_int_def)

lemma process_detections_single:
  "process_detections now [det] frame om
     = (snd (process_detection now (img_w frame) (img_h frame) (om, 0) det),
        fst (process_detection now (img_w frame) (img_h frame) (om, 0) det))"
  by (simp add: process_detections_def split: prod.splits)

lemma iou_examples:
  "compute_iou (0, 0, 100, 100) (0, 0, 100, 50) = 1/2"
  "compute_iou (0, 0, 100, 100) (0, 0, 100, 80) = 8/10"
  "compute_iou (0, 0, 100, 100) (0, 0, 100, 20) = 2/10"
  "compute_iou (0, 0, 100, 100) (0, 0, 100, 100) = 1"
  "compute_iou (0, 0, 100, 80) (0, 0, 100, 100) = 8/10"
  "compute_iou (0, 0, 100, 100) (500, 500, 100, 100) = 0"
  by (simp_all add: compute_iou_def Let_def)

text \<open>
  Two lost cups and a detection on the box of the first: the second cup has the label,
  is lost and overlaps with IoU 0.8, and keeps its box and its lost flag.
\<close>

theorem process_detections_twin_label_counterexample:
  "label (objects twin_cups ! 1) = fst (parse_label (get_label (cup_det [0, 0, 100, 100])))
   \<and> is_lost (objects twin_cups ! 1)
   \<and> convert_box (get_box_2d (cup_det [0, 0, 100, 100])) 1000 1000 = Some (0, 0, 100, 100)
   \<and> 1/10 < compute_iou (bbox (objects twin_cups ! 1)) (0, 0, 100, 100)
   \<and> bbox (objects (snd (process_detections 50 [cup_det [0, 0, 100, 100]] frame1000 twin_cups)) ! 1)
       = (0, 0, 100, 80)
   \<and> is_lost (objects (snd (process_detections 50 [cup_det [0, 0, 100, 100]] frame1000 twin_cups)) ! 1)"
  by (simp add: process_detections_single process_detection_def cup_det_label cup_det_box
      frame1000_def twin_cups_def mk_object_def iou_examples)

text \<open>
  A tracked cup and a detection of a cup elsewhere in the frame: the label is identical
  and a second cup is created.
\<close>

theorem process_detections_same_label_far_counterexample:
  "label (objects one_cup ! 0) = fst (parse_label (get_label (cup_det [500, 500, 600, 600])))
   \<and> fst (process_detections 50 [cup_det [500, 500, 600, 600]] frame1000 one_cup) = 1
   \<and> map obj_id (objects (snd (process_detections 50 [cup_det [500, 500, 600, 600]] frame1000 one_cup)))
       = [0, 1]
   \<and> map label (objects (snd (process_detections 50 [cup_det [500, 500, 600, 600]] frame1000 one_cup)))
       = [''cup'', ''cup'']"
  by (simp add: process_detections_single process_detection_def cup_det_label cup_det_box
      frame1000_def one_cup_def mk_object_def iou_examples add_object_Inr)

text \<open>
  The three cases of the specification: a tracked cup at IoU 0.5 keeps its box, at IoU
  0.8 it takes the new one, and a lost cup at IoU 0.2 takes the new one and is no longer
  lost.
\<close>

theorem process_detection_updates_witness:
  "bbox (hd (objects (snd (process_detections 50 [cup_det [0, 0, 50, 100]] frame1000 one_cup))))
     = (0, 0, 100, 100)
   \<and> bbox (hd (objects (snd (process_detections 50 [cup_det [0, 0, 80, 100]] frame1000 one_cup))))
     = (0, 0, 100, 80)
   \<and> bbox (hd (objects (snd (process_detections 50 [cup_det [0, 0, 20, 100]] frame1000 lost_cup))))
     = (0, 0, 100, 20)
   \<and> is_lost (hd (objects (snd (process_detections 50 [cup_det [0, 0, 20, 100]] frame1000 lost_cup))))
     = False
   \<and> lost_time (hd (objects (snd (process_detections 50 [cup_det [0, 0, 20, 100]] frame1000 lost_cup))))
     = None"
proof -
  let ?e = "mk_object 0 ''cup'' (0, 0, 100, 100)"
  let ?l = "?e\<lparr>is_lost := True, lost_time := Some 10\<rparr>"
  have o1: "objects one_cup = [] @ ?e # []" by (simp add: one_cup_def)
  have o2: "objects lost_cup = [] @ ?l # []" by (simp add: lost_cup_def)
  have no: "\<forall>p\<in>set []. \<not> (label p = ''cup'' \<and> 1/10 < compute_iou (bbox p) nb)" for nb
    by simp
  have le: "label ?e = ''cup''" "label ?l = ''cup''" by (simp_all add: mk_object_def)
  have i1: "1/10 < compute_iou (bbox ?e) (0, 0, 100, 50)"
    and i2: "1/10 < compute_iou (bbox ?e) (0, 0, 100, 80)"
    and i3: "1/10 < compute_iou (bbox ?l) (0, 0, 100, 20)"
    by (simp_all add: mk_object_def iou_examples)
  note a = process_detection_updates_first_overlapping_same_label
      [OF cup_det_box(1) cup_det_label o1 no le(1) i1, of 50 0]
  note b = process_detection_updates_first_overlapping_same_label
      [OF cup_det_box(2) cup_det_label o1 no le(1) i2, of 50 0]
  note c = process_detection_updates_first_overlapping_same_label
      [OF cup_det_box(3) cup_det_label o2 no le(2) i3, of 50 0]
  show ?thesis
    by (simp add: process_detections_single frame1000_def a b c)
       (simp add: mk_object_def iou_examples)
qed

text \<open>
  A cup detected far from the tracked cup is added and counted; a cup detected on it is
  not.
\<close>

theorem process_detection_creates_witness:
  "fst (process_detections 50 [cup_det [500, 500, 600, 600]] frame1000 one_cup) = 1
   \<and> length (objects (snd (process_detections 50 [cup_det [500, 500, 600, 600]] frame1000 one_cup))) = 2
   \<and> fst (process_detections 50 [cup_det [0, 0, 80, 100]] frame1000 one_cup) = 0
   \<and> length (objects (snd (process_detections 50 [cup_det [0, 0, 80, 100]] frame1000 one_cup))) = 1"
proof -
  note far = process_detection_creates_iff_no_overlapping_same_label
    [of "cup_det [500, 500, 600, 600]" 1000 1000 50 one_cup 0
        "[cup_det [500, 500, 600, 600]]" frame1000]
  note near = process_detection_creates_iff_no_overlapping_same_label
    [of "cup_det [0, 0, 80, 100]" 1000 1000 50 one_cup 0 "[cup_det [0, 0, 80, 100]]" frame1000]
  have nf: "\<not> (\<exists>e\<in>set (objects one_cup). label e = ''cup''
               \<and> 1/10 < compute_iou (bbox e) (500, 500, 100, 100))"
    by (simp add: one_cup_def mk_object_def iou_examples)
  have nn: "\<exists>e\<in>set (objects one_cup). label e = ''cup''
               \<and> 1/10 < compute_iou (bbox e) (0, 0, 100, 80)"
    by (simp add: one_cup_def mk_object_def iou_examples)
  from far cup_det_box(5) cup_det_label nf
  have f1: "\<exists>obj. process_detection 50 1000 1000 (one_cup, 0) (cup_det [500, 500, 600, 600])
                 = (one_cup\<lparr>objects := objects one_cup @ [obj], next_id := next_id one_cup + 1\<rparr>,
                   0 + 1)"
    by blast
  from near cup_det_box(2) cup_det_label nn
  have n1: "snd (process_detection 50 1000 1000 (one_cup, 0) (cup_det [0, 0, 80, 100])) = 0"
    by blast
  from near have n2: "fst (process_detections 50 [cup_det [0, 0, 80, 100]] frame1000 one_cup) + length (objects one_cup)
       = length (objects (snd (process_detections 50 [cup_det [0, 0, 80, 100]] frame1000 one_cup)))"
    by blast
  from f1 n1 n2 show ?thesis
    by (auto simp: process_detections_single frame1000_def one_cup_def)
qed

section \<open>Threat score of the tracker update\<close>

lemma compute_threat_formula:
  assumes "0 < img_h frame" and "0 < img_w frame"
  shows "compute_threat frame (x, y, w, h) lbl
       = Inr (7/10 * min 1 (w * h / (real (img_h frame * img_w frame) * (1/2)))
              + 3/10 * (1 - min 1 (\<bar>x + w / 2 - real (img_w frame) / 2\<bar> / (real (img_w frame) / 2))))"
proof -
  from assms have "real (img_h frame * img_w frame) * (5/10) \<noteq> 0"
    and "real (img_w frame) / 2 \<noteq> 0" by simp_all
  then have "compute_threat frame (x, y, w, h) lbl
       = Inr (min 1 (w * h / (real (img_h frame * img_w frame) * (5/10))) * (7/10)
              + (1 - min 1 (\<bar>x + w / 2 - real (img_w frame) / 2\<bar> / (real (img_w frame) / 2))) * (3/10))"
    by (simp add: compute_threat_def Let_def dict_index_def THREAT_PRIORITIES_def)
  then show ?thesis by (simp add: mult.commute)
qed

lemma update_tracker_ok:
  assumes "tracker obj = Some trk" and "trk frame = TrackOk (x, y, w, h)"
    and "0 < img_h frame" and "0 < img_w frame"
  shows "threat_score (fst (update_tracker now frame obj))
       = 7/10 * min 1 (w * h / (real (img_h frame * img_w frame) * (1/2)))
         + 3/10 * (1 - min 1 (\<bar>x + w / 2 - real (img_w frame) / 2\<bar> / (real (img_w frame) / 2)))"
    and "snd (update_tracker now frame obj)"
  using assms
  by (simp_all add: update_tracker_def Let_def compute_threat_formula [OF assms(3,4)])

lemma threat_score_mark_lost: "threat_score (mark_lost now obj) = threat_score obj"
  by (simp add: mark_lost_def)

lemma update_tracker_not_ok:
  assumes "tracker obj = None \<or> (\<exists>trk. tracker obj = Some trk \<and> (trk frame = TrackFail \<or> trk frame = TrackRaise))"
  shows "threat_score (fst (update_tracker now frame obj)) = threat_score obj"
    and "\<not> snd (update_tracker now frame obj)"
  using assms
  by (auto simp: update_tracker_def threat_score_mark_lost)

lemma update_trackers_nth:
  "i < length (objects om) \<Longrightarrow>
     objects (snd (update_trackers now frame om)) ! i = fst (update_tracker now frame (objects om ! i))"
  by (auto simp: update_trackers_def Let_def)

lemma update_trackers_length:
  "length (objects (snd (update_trackers now frame om))) = length (objects om)"
  by (auto simp: update_trackers_def Let_def)


text \<open>
  C2.  For the object at any position of the list: after a tracker update that succeeds
  with the box \<open>(x, y, w, h)\<close> on a frame that has pixels, the threat score is
  \<open>0.7 * size_score + 0.3 * centrality_score\<close>, written out below; the label and the
  priority table do not occur in it.  When the object has no tracker, or the update
  fails or raises, the threat score is the one it had.
\<close>

theorem update_trackers_threat_score:
  assumes "i < length (objects om)"
  shows "length (objects (snd (update_trackers now frame om))) = length (objects om)
    \<and> (\<forall>trk x y w h.
          tracker (objects om ! i) = Some trk \<and> trk frame = TrackOk (x, y, w, h)
          \<and> 0 < img_h frame \<and> 0 < img_w frame
          \<longrightarrow> threat_score (objects (snd (update_trackers now frame om)) ! i)
                = 7/10 * min 1 (w * h / (real (img_h frame * img_w frame) * (1/2)))
                  + 3/10 * (1 - min 1 (\<bar>x + w / 2 - real (img_w frame) / 2\<bar>
                                         / (real (img_w frame) / 2))))
    \<and> (tracker (objects om ! i) = None
         \<or> (\<exists>trk. tracker (objects om ! i) = Some trk
                 \<and> (trk frame = TrackFail \<or> trk frame = TrackRaise))
          \<longrightarrow> threat_score (objects (snd (update_trackers now frame om)) ! i)
                = threat_score (objects om ! i))"
proof (intro conjI allI impI)
  show "length (objects (snd (update_trackers now frame om))) = length (objects om)"
    by (rule update_trackers_length)
next
  fix trk x y w h
  assume a: "tracker (objects om ! i) = Some trk \<and> trk frame = TrackOk (x, y, w, h)
          \<and> 0 < img_h frame \<and> 0 < img_w frame"
  then have "threat_score (fst (update_tracker now frame (objects om ! i)))
       = 7/10 * min 1 (w * h / (real (img_h frame * img_w frame) * (1/2)))
         + 3/10 * (1 - min 1 (\<bar>x + w / 2 - real (img_w frame) / 2\<bar> / (real (img_w frame) / 2)))"
    by (intro update_tracker_ok(1) [of _ trk]) simp_all
  then show "threat_score (objects (snd (update_trackers now frame om)) ! i)
                = 7/10 * min 1 (w * h / (real (img_h frame * img_w frame) * (1/2)))
                  + 3/10 * (1 - min 1 (\<bar>x + w / 2 - real (img_w frame) / 2\<bar>
                                         / (real (img_w frame) / 2)))"
    by (simp add: update_trackers_nth [OF assms])
next
  assume "tracker (objects om ! i) = None
         \<or> (\<exists>trk. tracker (objects om ! i) = Some trk
                 \<and> (trk frame = TrackFail \<or> trk frame = TrackRaise))"
  then have "threat_score (fst (update_tracker now frame (objects om ! i)))
      = threat_score (objects om ! i)"
    by (rule update_tracker_not_ok(1))
  then show "threat_score (objects (snd (update_trackers now frame om)) ! i)
                = threat_score (objects om ! i)"
    by (simp add: update_trackers_nth [OF assms])
qed

text \<open>
  The cup is found at \<open>(120, 100, 320, 240)\<close>: size score 0.5, centrality 0.875,
  threat 0.6125.  The door and the person keep their scores.
\<close>

theorem update_trackers_threat_score_witness:
  "length (objects (snd (update_trackers 5 frame640 tracked_trio))) = 3
   \<and> threat_score (objects (snd (update_trackers 5 frame640 tracked_trio)) ! 0) = 49/80
   \<and> threat_score (objects (snd (update_trackers 5 frame640 tracked_trio)) ! 1) = 1/4
   \<and> threat_score (objects (snd (update_trackers 5 frame640 tracked_trio)) ! 2) = 3/4"
proof -
  have l: "length (objects tracked_trio) = 3" by (simp add: tracked_trio_def)
  note t0 = update_trackers_threat_score [of 0 tracked_trio 5 frame640]
  note t1 = update_trackers_threat_score [of 1 tracked_trio 5 frame640]
  note t2 = update_trackers_threat_score [of 2 tracked_trio 5 frame640]
  have a0: "threat_score (objects (snd (update_trackers 5 frame640 tracked_trio)) ! 0) = 49/80"
  proof -
    have "tracker (objects tracked_trio ! 0) = Some (\<lambda>f. TrackOk (120, 100, 320, 240))
       \<and> (\<lambda>f. TrackOk (120, 100, 320, 240)) frame640 = TrackOk (120, 100, 320, 240)
       \<and> 0 < img_h frame640 \<and> 0 < img_w frame640"
      by (simp add: tracked_trio_def mk_object_def frame640_def)
    from t0 [THEN conjunct2, THEN conjunct1, rule_format,
        of "\<lambda>f. TrackOk (120, 100, 320, 240)" 120 100 320 240, OF _ this] l
    have "threat_score (objects (snd (update_trackers 5 frame640 tracked_trio)) ! 0)
                = 7/10 * min 1 (320 * 240 / (real (img_h frame640 * img_w frame640) * (1/2)))
                  + 3/10 * (1 - min 1 (\<bar>120 + 320 / 2 - real (img_w frame640) / 2\<bar>
                                         / (real (img_w frame640) / 2)))"
      by simp
    then show ?thesis by (simp add: frame640_def)
  qed
  have a1: "threat_score (objects (snd (update_trackers 5 frame640 tracked_trio)) ! 1) = 1/4"
    using t1 l by (simp add: tracked_trio_def mk_object_def)
  have a2: "threat_score (objects (snd (update_trackers 5 frame640 tracked_trio)) ! 2) = 3/4"
    using t2 l by (simp add: tracked_trio_def mk_object_def)
  from t0 l have "length (objects (snd (update_trackers 5 frame640 tracked_trio))) = 3" by simp
  with a0 a1 a2 show ?thesis by blast
qed

section \<open>Spatial gain and threat ducking\<close>

lemma sqrt_bounds_600: "sqrt (460800 / 360001) \<le> 2" "1/2 \<le> sqrt (460800 / 360001)"
proof -
  show "sqrt (460800 / 360001) \<le> 2"
    by (rule real_le_lsqrt) (simp_all add: power2_eq_square)
  show "1/2 \<le> sqrt (460800 / 360001)"
    by (rule real_le_rsqrt) (simp add: power2_eq_square)
qed

lemma sqrt_bounds_200: "3 < sqrt (460800 / 40001)" "sqrt (460800 / 40001) < 4"
proof -
  show "3 < sqrt (460800 / 40001)"
    by (rule real_less_rsqrt) (simp add: power2_eq_square)
  show "sqrt (460800 / 40001) < 4"
    by (rule real_less_lsqrt) (simp_all add: power2_eq_square)
qed

lemma sqrt_bounds_50: "10 \<le> sqrt (460800 / 2501)"
  by (rule real_le_rsqrt) (simp add: power2_eq_square)

lemma gain_600: "spatial_gain (x, y, 600, 600) = Inr (sqrt (460800 / 360001), 1)"
  using sqrt_bounds_600
  by (simp add: spatial_gain_def Let_def min_def max_def field_simps)

lemma gain_50: "spatial_gain (x, y, 50, 50) = Inr (10, 2/10)"
  using sqrt_bounds_50
  by (simp add: spatial_gain_def Let_def min_def max_def)

lemma gain_200: "spatial_gain (x, y, 200, 200) = Inr (sqrt (460800 / 40001), 2 / sqrt (460800 / 40001))"
  using sqrt_bounds_200
  by (simp add: spatial_gain_def Let_def min_def max_def field_simps)

text \<open>
  C6.  Against the 1280 by 720 reference frame, the gains of boxes of 600 by 600, 200 by
  200 and 50 by 50 pixels (anywhere in the frame) are strictly decreasing, the largest
  is within 0.2 of 1.0 and the smallest within 0.2 of 0.1.  (They are 1, about 0.589,
  and 0.2.)
\<close>

theorem spatial_gain_monotone_on_reference_boxes:
  "\<exists>d1 g1 d2 g2 d3 g3.
     spatial_gain (x1, y1, 600, 600) = Inr (d1, g1)
   \<and> spatial_gain (x2, y2, 200, 200) = Inr (d2, g2)
   \<and> spatial_gain (x3, y3, 50, 50) = Inr (d3, g3)
   \<and> g1 > g2 \<and> g2 > g3 \<and> \<bar>g1 - 1\<bar> \<le> 2/10 \<and> \<bar>g3 - 1/10\<bar> \<le> 2/10"
proof -
  let ?s = "sqrt (460800 / 40001)"
  have pos: "0 < ?s" using sqrt_bounds_200 by linarith
  have "2 / ?s < 1" using sqrt_bounds_200 pos by (simp add: field_simps)
  moreover have "2/10 < 2 / ?s" using sqrt_bounds_200 pos by (simp add: field_simps)
  ultimately show ?thesis
    unfolding gain_600 gain_200 gain_50 by (intro exI conjI) (rule refl | simp)+
qed

lemma foldl_max_eq_Max:
  "foldl (\<lambda>m x. max m (f x)) (a::real) xs = Max (insert a (f ` set xs))"
proof (induction xs arbitrary: a)
  case Nil
  then show ?case by simp
next
  case (Cons x xs)
  have "Max (insert (max a (f x)) (f ` set xs)) = Max (insert a (insert (f x) (f ` set xs)))"
  proof (cases "f ` set xs = {}")
    case True
    then show ?thesis by (simp add: max.commute)
  next
    case False
    then show ?thesis by (simp add: max.assoc)
  qed
  with Cons show ?case by simp
qed

lemma max_threat_of_Max:
  assumes "objs \<noteq> []" and "\<forall>obj\<in>set objs. 0 \<le> threat_score obj"
  shows "max_threat_of objs = Max (threat_score ` set objs)"
proof -
  have fin: "finite (threat_score ` set objs)" and ne: "threat_score ` set objs \<noteq> {}"
    using assms(1) by simp_all
  from assms obtain obj where "obj \<in> set objs" "0 \<le> threat_score obj"
    by (cases objs) auto
  then have "0 \<le> Max (threat_score ` set objs)"
    using fin by (meson Max_ge image_eqI order_trans)
  then have "Max (insert 0 (threat_score ` set objs)) = Max (threat_score ` set objs)"
    using fin ne by (simp add: max_def)
  then show ?thesis by (simp add: max_threat_of_def foldl_max_eq_Max)
qed

lemma spatial_gain_total:
  assumes "0 \<le> w * h"
  shows "\<exists>d g. spatial_gain (x, y, w, h) = Inr (d, g)"
proof -
  from assms have "w * h + 1 \<noteq> 0" and "\<not> 460800 / (w * h + 1) < 0"
    by (simp_all add: not_less)
  then show ?thesis by (simp add: spatial_gain_def Let_def)
qed

lemma scene_object_gain:
  assumes "spatial_gain (bbox obj) = Inr (d, g)"
  shows "\<exists>src. scene_object objs bufs obj srcs = Inr (srcs(obj_id obj \<mapsto> src))
           \<and> al_gain src = (if threat_score obj < max_threat_of objs * (8/10)
                            then g * (3/10) else g)"
proof -
  obtain x y w h where bb: "bbox obj = (x, y, w, h)" by (cases "bbox obj")
  show ?thesis
  proof (cases "threat_score obj < max_threat_of objs * (8/10)")
    case True
    with assms bb have "\<exists>s. scene_object objs bufs obj srcs
        = Inr (srcs(obj_id obj \<mapsto> s\<lparr>al_gain := g * (3/10)\<rparr>))"
      by (simp add: scene_object_def Let_def) (intro exI, rule refl)
    then obtain s where "scene_object objs bufs obj srcs
        = Inr (srcs(obj_id obj \<mapsto> s\<lparr>al_gain := g * (3/10)\<rparr>))" ..
    moreover have "al_gain (s\<lparr>al_gain := g * (3/10)\<rparr>)
        = (if threat_score obj < max_threat_of objs * (8/10) then g * (3/10) else g)"
      using True by simp
    ultimately show ?thesis by blast
  next
    case False
    with assms bb have "\<exists>s. scene_object objs bufs obj srcs
        = Inr (srcs(obj_id obj \<mapsto> s\<lparr>al_gain := g\<rparr>))"
      by (simp add: scene_object_def Let_def) (intro exI, rule refl)
    then obtain s where "scene_object objs bufs obj srcs
        = Inr (srcs(obj_id obj \<mapsto> s\<lparr>al_gain := g\<rparr>))" ..
    moreover have "al_gain (s\<lparr>al_gain := g\<rparr>)
        = (if threat_score obj < max_threat_of objs * (8/10) then g * (3/10) else g)"
      using False by simp
    ultimately show ?thesis by blast
  qed
qed

lemma scene_loop_gains:
  assumes "\<forall>obj\<in>set rest. \<exists>d g. spatial_gain (bbox obj) = Inr (d, g)"
  shows "\<exists>srcs'. scene_loop objs bufs rest srcs = Inr srcs'
           \<and> (\<forall>k. k \<notin> obj_id ` set rest \<longrightarrow> srcs' k = srcs k)
           \<and> (distinct (map obj_id rest) \<longrightarrow>
                (\<forall>obj\<in>set rest. \<exists>src d g. srcs' (obj_id obj) = Some src
                    \<and> spatial_gain (bbox obj) = Inr (d, g)
                    \<and> al_gain src = (if threat_score obj < max_threat_of objs * (8/10)
                                     then g * (3/10) else g)))"
  using assms
proof (induction rest arbitrary: srcs)
  case Nil
  then show ?case by simp
next
  case (Cons obj rest)
  from Cons.prems obtain d g where dg: "spatial_gain (bbox obj) = Inr (d, g)" by auto
  from scene_object_gain [OF dg, of objs bufs srcs] obtain src where
    so: "scene_object objs bufs obj srcs = Inr (srcs(obj_id obj \<mapsto> src))"
    and gain: "al_gain src = (if threat_score obj < max_threat_of objs * (8/10)
                            then g * (3/10) else g)"
    by blast
  from Cons.prems have rest_ok: "\<forall>obj\<in>set rest. \<exists>d g. spatial_gain (bbox obj) = Inr (d, g)"
    by simp
  from Cons.IH [OF rest_ok, of "srcs(obj_id obj \<mapsto> src)"] obtain srcs' where
    loop: "scene_loop objs bufs rest (srcs(obj_id obj \<mapsto> src)) = Inr srcs'"
    and keep: "\<forall>k. k \<notin> obj_id ` set rest \<longrightarrow> srcs' k = (srcs(obj_id obj \<mapsto> src)) k"
    and gains: "distinct (map obj_id rest) \<longrightarrow>
                (\<forall>obj\<in>set rest. \<exists>src d g. srcs' (obj_id obj) = Some src
                    \<and> spatial_gain (bbox obj) = Inr (d, g)
                    \<and> al_gain src = (if threat_score obj < max_threat_of objs * (8/10)
                                     then g * (3/10) else g))"
    by blast
  have 1: "scene_loop objs bufs (obj # rest) srcs = Inr srcs'"
    by (simp add: so loop)
  have 2: "\<forall>k. k \<notin> obj_id ` set (obj # rest) \<longrightarrow> srcs' k = srcs k"
    using keep by auto
  have 3: "distinct (map obj_id (obj # rest)) \<longrightarrow>
                (\<forall>ob\<in>set (obj # rest). \<exists>src d g. srcs' (obj_id ob) = Some src
                    \<and> spatial_gain (bbox ob) = Inr (d, g)
                    \<and> al_gain src = (if threat_score ob < max_threat_of objs * (8/10)
                                     then g * (3/10) else g))"
  proof (intro impI ballI)
    fix ob assume dist: "distinct (map obj_id (obj # rest))" and ob: "ob \<in> set (obj # rest)"
    show "\<exists>src d g. srcs' (obj_id ob) = Some src
                    \<and> spatial_gain (bbox ob) = Inr (d, g)
                    \<and> al_gain src = (if threat_score ob < max_threat_of objs * (8/10)
                                     then g * (3/10) else g)"
    proof (cases "ob = obj")
      case True
      from dist have "obj_id obj \<notin> obj_id ` set rest" by simp
      with keep have "srcs' (obj_id obj) = Some src" by simp
      with dg gain True show ?thesis by blast
    next
      case False
      with ob have "ob \<in> set rest" by simp
      moreover from dist have "distinct (map obj_id rest)" by simp
      ultimately show ?thesis using gains by blast
    qed
  qed
  from 1 2 3 show ?case by blast
qed

text \<open>
  C7.  With OpenAL available, on a snapshot of objects with distinct ids, threat scores
  that are not negative and boxes whose area is not negative, the scene update succeeds
  and leaves one source per object of the snapshot.  The gain of an object's source is
  its base gain (the gain of \<^const>\<open>spatial_gain\<close>) times 0.3 when its score is below
  0.8 times the maximum score of the snapshot, and its base gain otherwise, as for the
  object of maximum score itself.
\<close>

theorem update_scene_ducks_below_four_fifths_of_max:
  assumes "OPENAL_AVAILABLE"
    and "distinct (map obj_id objs)"
    and "\<forall>obj\<in>set objs. 0 \<le> threat_score obj"
    and "\<forall>obj\<in>set objs. 0 \<le> fst (snd (snd (bbox obj))) * snd (snd (snd (bbox obj)))"
  shows "\<exists>srcs'. update_scene OPENAL_AVAILABLE bufs objs srcs = Inr srcs'
           \<and> dom srcs' = obj_id ` set objs
           \<and> (\<forall>obj\<in>set objs. \<exists>src d base_gain.
                 srcs' (obj_id obj) = Some src
                 \<and> spatial_gain (bbox obj) = Inr (d, base_gain)
                 \<and> (threat_score obj < 8/10 * Max (threat_score ` set objs)
                      \<longrightarrow> al_gain src = base_gain * (3/10))
                 \<and> (8/10 * Max (threat_score ` set objs) \<le> threat_score obj
                      \<longrightarrow> al_gain src = base_gain)
                 \<and> (threat_score obj = Max (threat_score ` set objs)
                      \<longrightarrow> al_gain src = base_gain))"
proof -
  have ok: "\<forall>obj\<in>set objs. \<exists>d g. spatial_gain (bbox obj) = Inr (d, g)"
  proof
    fix obj assume "obj \<in> set objs"
    with assms(4) have "0 \<le> fst (snd (snd (bbox obj))) * snd (snd (snd (bbox obj)))" by blast
    then show "\<exists>d g. spatial_gain (bbox obj) = Inr (d, g)"
      using spatial_gain_total [of "fst (snd (snd (bbox obj)))" "snd (snd (snd (bbox obj)))"
          "fst (bbox obj)" "fst (snd (bbox obj))"]
      by simp
  qed
  from scene_loop_gains [OF ok, of objs bufs srcs] assms(2) obtain srcs1 where
    loop: "scene_loop objs bufs objs srcs = Inr srcs1"
    and gains: "\<forall>obj\<in>set objs. \<exists>src d g. srcs1 (obj_id obj) = Some src
                    \<and> spatial_gain (bbox obj) = Inr (d, g)
                    \<and> al_gain src = (if threat_score obj < max_threat_of objs * (8/10)
                                     then g * (3/10) else g)"
    by blast
  let ?srcs' = "srcs1 |` (obj_id ` set objs)"
  have res: "update_scene OPENAL_AVAILABLE bufs objs srcs = Inr ?srcs'"
    using assms(1) loop by (simp add: update_scene_def)
  have dom: "dom ?srcs' = obj_id ` set objs"
  proof -
    have "obj_id ` set objs \<subseteq> dom srcs1" using gains by auto
    then show ?thesis by auto
  qed
  have each: "\<exists>src d base_gain.
                 ?srcs' (obj_id obj) = Some src
                 \<and> spatial_gain (bbox obj) = Inr (d, base_gain)
                 \<and> (threat_score obj < 8/10 * Max (threat_score ` set objs)
                      \<longrightarrow> al_gain src = base_gain * (3/10))
                 \<and> (8/10 * Max (threat_score ` set objs) \<le> threat_score obj
                      \<longrightarrow> al_gain src = base_gain)
                 \<and> (threat_score obj = Max (threat_score ` set objs)
                      \<longrightarrow> al_gain src = base_gain)" if mem: "obj \<in> set objs" for obj
  proof -
    from mem have ne: "objs \<noteq> []" by auto
    have mx: "max_threat_of objs = Max (threat_score ` set objs)"
      by (rule max_threat_of_Max [OF ne assms(3)])
    from mem assms(3) have nonneg: "0 \<le> threat_score obj" by blast
    from gains mem obtain src d g where
      s: "srcs1 (obj_id obj) = Some src" and sg: "spatial_gain (bbox obj) = Inr (d, g)"
      and ag: "al_gain src = (if threat_score obj < max_threat_of objs * (8/10)
                                     then g * (3/10) else g)"
      by blast
    from s mem have s': "?srcs' (obj_id obj) = Some src" by simp
    have a: "threat_score obj < 8/10 * Max (threat_score ` set objs)
                      \<longrightarrow> al_gain src = g * (3/10)"
      using ag mx by (simp add: mult.commute)
    have b: "8/10 * Max (threat_score ` set objs) \<le> threat_score obj
                      \<longrightarrow> al_gain src = g"
      using ag mx by (simp add: mult.commute)
    have c: "threat_score obj = Max (threat_score ` set objs) \<longrightarrow> al_gain src = g"
    proof
      assume "threat_score obj = Max (threat_score ` set objs)"
      with nonneg have "8/10 * Max (threat_score ` set objs) \<le> threat_score obj" by simp
      with b show "al_gain src = g" by blast
    qed
    from s' sg a b c show ?thesis by blast
  qed
  from res dom each show ?thesis by blast
qed

text \<open>
  Scores 1.0, 0.5 and 0.1: the first source has its base gain, the two others 0.3 times
  theirs.
\<close>

theorem update_scene_ducking_witness:
  "\<exists>srcs' d0 g0 d1 g1 d2 g2.
     update_scene True [] ducking_trio Map.empty = Inr srcs'
   \<and> spatial_gain (bbox (ducking_trio ! 0)) = Inr (d0, g0)
   \<and> spatial_gain (bbox (ducking_trio ! 1)) = Inr (d1, g1)
   \<and> spatial_gain (bbox (ducking_trio ! 2)) = Inr (d2, g2)
   \<and> map_option al_gain (srcs' 0) = Some g0
   \<and> map_option al_gain (srcs' 1) = Some (g1 * (3/10))
   \<and> map_option al_gain (srcs' 2) = Some (g2 * (3/10))"
proof -
  have h2: "distinct (map obj_id ducking_trio)"
    by (simp add: ducking_trio_def mk_object_def)
  have h3: "\<forall>obj\<in>set ducking_trio. 0 \<le> threat_score obj"
    by (simp add: ducking_trio_def mk_object_def)
  have h4: "\<forall>obj\<in>set ducking_trio.
      0 \<le> fst (snd (snd (bbox obj))) * snd (snd (snd (bbox obj)))"
    by (simp add: ducking_trio_def mk_object_def)
  from update_scene_ducks_below_four_fifths_of_max [OF TrueI h2 h3 h4, of "[]" Map.empty]
  obtain srcs' where res: "update_scene True [] ducking_trio Map.empty = Inr srcs'"
    and each: "\<forall>obj\<in>set ducking_trio. \<exists>src d base_gain.
                 srcs' (obj_id obj) = Some src
                 \<and> spatial_gain (bbox obj) = Inr (d, base_gain)
                 \<and> (threat_score obj < 8/10 * Max (threat_score ` set ducking_trio)
                      \<longrightarrow> al_gain src = base_gain * (3/10))
                 \<and> (8/10 * Max (threat_score ` set ducking_trio) \<le> threat_score obj
                      \<longrightarrow> al_gain src = base_gain)
                 \<and> (threat_score obj = Max (threat_score ` set ducking_trio)
                      \<longrightarrow> al_gain src = base_gain)"
    by blast
  have mx: "Max (threat_score ` set ducking_trio) = 1"
    by (simp add: ducking_trio_def mk_object_def)
  have mem: "ducking_trio ! 0 \<in> set ducking_trio" "ducking_trio ! 1 \<in> set ducking_trio"
    "ducking_trio ! 2 \<in> set ducking_trio"
    by (simp_all add: ducking_trio_def)
  have ids: "obj_id (ducking_trio ! 0) = 0" "obj_id (ducking_trio ! 1) = 1"
    "obj_id (ducking_trio ! 2) = 2"
    by (simp_all add: ducking_trio_def mk_object_def)
  have ts: "threat_score (ducking_trio ! 0) = 1" "threat_score (ducking_trio ! 1) = 1/2"
    "threat_score (ducking_trio ! 2) = 1/10"
    by (simp_all add: ducking_trio_def mk_object_def)
  from each mem(1) obtain s0 d0 g0 where
    a0: "srcs' (obj_id (ducking_trio ! 0)) = Some s0"
      "spatial_gain (bbox (ducking_trio ! 0)) = Inr (d0, g0)"
      "threat_score (ducking_trio ! 0) = Max (threat_score ` set ducking_trio)
         \<longrightarrow> al_gain s0 = g0"
    by blast
  from each mem(2) obtain s1 d1 g1 where
    a1: "srcs' (obj_id (ducking_trio ! 1)) = Some s1"
      "spatial_gain (bbox (ducking_trio ! 1)) = Inr (d1, g1)"
      "threat_score (ducking_trio ! 1) < 8/10 * Max (threat_score ` set ducking_trio)
         \<longrightarrow> al_gain s1 = g1 * (3/10)"
    by blast
  from each mem(3) obtain s2 d2 g2 where
    a2: "srcs' (obj_id (ducking_trio ! 2)) = Some s2"
      "spatial_gain (bbox (ducking_trio ! 2)) = Inr (d2, g2)"
      "threat_score (ducking_trio ! 2) < 8/10 * Max (threat_score ` set ducking_trio)
         \<longrightarrow> al_gain s2 = g2 * (3/10)"
    by blast
  from a0 ids(1) ts(1) mx have b0: "map_option al_gain (srcs' 0) = Some g0" by simp
  from a1 ids(2) ts(2) mx have b1: "map_option al_gain (srcs' 1) = Some (g1 * (3/10))" by simp
  from a2 ids(3) ts(3) mx have b2: "map_option al_gain (srcs' 2) = Some (g2 * (3/10))" by simp
  from res a0(2) a1(2) a2(2) b0 b1 b2 show ?thesis by blast
qed

section \<open>Local recovery\<close>

text \<open>
  C9.  \<open>attempt_local_recovery\<close> fails when the object has no template and when the
  template is higher or wider than the frame.  Otherwise, with the best match of the
  template matching at hand, it succeeds exactly when the best score exceeds 0.7, and
  then returns the box at the best-match position with the width and height of the
  template; it fails when the score is 0.7 or less, and when the matching raises.
\<close>

theorem attempt_local_recovery_accepts_above_threshold:
  "(template obj = None \<longrightarrow> attempt_local_recovery match_template frame obj = (False, None))
   \<and> (\<forall>t. template obj = Some t \<and> (img_h frame < img_h t \<or> img_w frame < img_w t)
         \<longrightarrow> attempt_local_recovery match_template frame obj = (False, None))
   \<and> (\<forall>t res. template obj = Some t \<and> img_h t \<le> img_h frame \<and> img_w t \<le> img_w frame
               \<and> match_template frame t = Inr res
         \<longrightarrow> attempt_local_recovery match_template frame obj
               = (if 7/10 < max_val res
                  then (True, Some (real (fst (max_loc res)), real (snd (max_loc res)),
                                    real (img_w t), real (img_h t)))
                  else (False, None)))
   \<and> (\<forall>t e. template obj = Some t \<and> img_h t \<le> img_h frame \<and> img_w t \<le> img_w frame
             \<and> match_template frame t = Inl e
         \<longrightarrow> attempt_local_recovery match_template frame obj = (False, None))"
  by (auto simp: attempt_local_recovery_def Let_def)


text \<open>
  A match of score 0.95 at \<open>(300, 300)\<close> is accepted with the template's size; a
  score of exactly 0.7, a template larger than the frame and a missing template fail.
\<close>

theorem attempt_local_recovery_witness:
  "attempt_local_recovery found_at_300 frame500
     ((mk_object 0 ''cup'' (100, 100, 50, 50))\<lparr>template := Some patch50\<rparr>)
     = (True, Some (300, 300, 50, 50))
   \<and> attempt_local_recovery weak_match frame500
     ((mk_object 0 ''cup'' (100, 100, 50, 50))\<lparr>template := Some patch50\<rparr>)
     = (False, None)
   \<and> attempt_local_recovery found_at_300 patch50
     ((mk_object 0 ''cup'' (100, 100, 50, 50))\<lparr>template := Some frame500\<rparr>)
     = (False, None)
   \<and> attempt_local_recovery found_at_300 frame500 (mk_object 0 ''cup'' (100, 100, 50, 50))
     = (False, None)"
  using attempt_local_recovery_accepts_above_threshold
      [of "(mk_object 0 ''cup'' (100, 100, 50, 50))\<lparr>template := Some patch50\<rparr>"
          found_at_300 frame500]
    attempt_local_recovery_accepts_above_threshold
      [of "(mk_object 0 ''cup'' (100, 100, 50, 50))\<lparr>template := Some patch50\<rparr>"
          weak_match frame500]
    attempt_local_recovery_accepts_above_threshold
      [of "(mk_object 0 ''cup'' (100, 100, 50, 50))\<lparr>template := Some frame500\<rparr>"
          found_at_300 patch50]
    attempt_local_recovery_accepts_above_threshold
      [of "mk_object 0 ''cup'' (100, 100, 50, 50)" found_at_300 frame500]
  by (simp add: mk_object_def frame500_def patch50_def found_at_300_def weak_match_def)

section \<open>Audio mixing\<close>

lemma np_max_ge:
  assumes "x \<in> set xs"
  shows "x \<le> np_max xs"
proof -
  from assms obtain y ys where xs: "xs = y # ys" by (cases xs) auto
  have "np_max xs = Max (set (y # ys))"
    unfolding np_max_def xs list.sel by (rule Max.set_eq_fold [symmetric])
  with assms xs show ?thesis by simp
qed

lemma mix_source_total:
  assumes "map_of signatures ''default'' = Some dflt"
    and "\<forall>s\<in>snd ` set signatures. s \<noteq> []"
  shows "\<exists>l r sd'. mix_source signatures frames sd = Inr (l, r, sd')
           \<and> length l = frames \<and> length r = frames"
proof -
  have d: "dict_index signatures ''default'' = Inr dflt"
    using assms(1) by (simp add: dict_index_def)
  have "dflt \<in> snd ` set signatures"
    using assms(1) by (metis map_of_SomeD image_eqI snd_conv)
  moreover have "dict_get signatures nm dflt \<in> insert dflt (snd ` set signatures)" for nm
    by (auto simp: dict_get_def split: option.splits dest!: map_of_SomeD intro: rev_image_eqI)
  ultimately have "dict_get signatures nm dflt \<noteq> []" for nm
    using assms(2) by (metis insert_iff)
  then show ?thesis
    by (simp add: mix_source_def Let_def d)
qed

lemma mix_sources_total:
  assumes "map_of signatures ''default'' = Some dflt"
    and "\<forall>s\<in>snd ` set signatures. s \<noteq> []"
    and "length left_channel = frames" and "length right_channel = frames"
  shows "\<exists>l r srcs'. mix_sources signatures frames srcs left_channel right_channel
                        = Inr (l, r, srcs')
           \<and> length l = frames \<and> length r = frames"
  using assms(3,4)
proof (induction srcs arbitrary: left_channel right_channel)
  case Nil
  then show ?case by simp
next
  case (Cons a srcs)
  obtain oid sd where a: "a = (oid, sd)" by (cases a)
  from mix_source_total [OF assms(1,2), of frames sd] obtain l r sd' where
    ms: "mix_source signatures frames sd = Inr (l, r, sd')"
    and len: "length l = frames" "length r = frames"
    by blast
  have "length (map (\<lambda>(a, b). a + b) (zip left_channel l)) = frames"
    and "length (map (\<lambda>(a, b). a + b) (zip right_channel r)) = frames"
    using Cons.prems len by simp_all
  from Cons.IH [OF this] obtain l2 r2 srcs2 where
    "mix_sources signatures frames srcs (map (\<lambda>(a, b). a + b) (zip left_channel l))
        (map (\<lambda>(a, b). a + b) (zip right_channel r)) = Inr (l2, r2, srcs2)"
    and "length l2 = frames" "length r2 = frames"
    by blast
  then show ?case by (simp add: a ms)
qed

lemma rescale_bound:
  assumes "x \<in> set xs" and "np_max (map abs xs) \<le> (m::real)" and "1 < m"
  shows "\<bar>x / m\<bar> \<le> 1"
proof -
  from assms(1) have "\<bar>x\<bar> \<in> set (map abs xs)" by simp
  then have "\<bar>x\<bar> \<le> np_max (map abs xs)" by (rule np_max_ge)
  with assms(2) have "\<bar>x\<bar> \<le> m" by simp
  with assms(3) show ?thesis by simp
qed

lemma keep_bound:
  assumes "x \<in> set xs" and "np_max (map abs xs) \<le> (m::real)" and "\<not> 1 < m"
  shows "\<bar>x\<bar> \<le> 1"
proof -
  from assms(1) have "\<bar>x\<bar> \<in> set (map abs xs)" by simp
  then have "\<bar>x\<bar> \<le> np_max (map abs xs)" by (rule np_max_ge)
  with assms(2,3) show ?thesis by simp
qed

text \<open>
  C8.  For a callback of at least one frame, a signature table that has a default and
  no empty signature, and any sources (any number, azimuths, volumes, signature names
  and positions): the callback returns two channels of \<open>frames\<close> samples, every
  sample of which has magnitude at most 1.  When the peak of the summed channels
  exceeds 1, both channels are the summed channels divided by that one peak; otherwise
  they are the summed channels themselves.
\<close>

theorem audio_callback_peak_at_most_one:
  assumes "0 < frames"
    and "map_of signatures ''default'' = Some dflt"
    and "\<forall>s\<in>snd ` set signatures. s \<noteq> []"
  shows "\<exists>left_mix right_mix out_left out_right srcs'.
           mix_sources signatures frames srcs (replicate frames 0) (replicate frames 0)
             = Inr (left_mix, right_mix, srcs')
         \<and> audio_callback signatures frames srcs = Inr (out_left, out_right, srcs')
         \<and> length out_left = frames \<and> length out_right = frames
         \<and> (\<forall>x\<in>set out_left \<union> set out_right. \<bar>x\<bar> \<le> 1)
         \<and> (1 < max (np_max (map abs left_mix)) (np_max (map abs right_mix))
              \<longrightarrow> out_left = map (\<lambda>x. x / max (np_max (map abs left_mix))
                                               (np_max (map abs right_mix))) left_mix
                \<and> out_right = map (\<lambda>x. x / max (np_max (map abs left_mix))
                                                (np_max (map abs right_mix))) right_mix)
         \<and> (max (np_max (map abs left_mix)) (np_max (map abs right_mix)) \<le> 1
              \<longrightarrow> out_left = left_mix \<and> out_right = right_mix)"
proof -
  from mix_sources_total [OF assms(2,3), of "replicate frames 0" frames "replicate frames 0" srcs]
  obtain l r srcs' where
    mix: "mix_sources signatures frames srcs (replicate frames 0) (replicate frames 0)
            = Inr (l, r, srcs')"
    and len: "length l = frames" "length r = frames"
    by auto
  define m where "m = max (np_max (map abs l)) (np_max (map abs r))"
  have ml: "np_max (map abs l) \<le> m" and mr: "np_max (map abs r) \<le> m"
    by (simp_all add: m_def)
  show ?thesis
  proof (cases "1 < m")
    case True
    have cb: "audio_callback signatures frames srcs
        = Inr (map (\<lambda>x. x / m) l, map (\<lambda>x. x / m) r, srcs')"
      using assms(1) True by (simp add: audio_callback_def mix Let_def m_def)
    have bound: "\<forall>x\<in>set (map (\<lambda>x. x / m) l) \<union> set (map (\<lambda>x. x / m) r). \<bar>x\<bar> \<le> 1"
      using rescale_bound [OF _ ml True] rescale_bound [OF _ mr True] by auto
    show ?thesis
      apply (rule exI [of _ l], rule exI [of _ r])
      apply (rule exI [of _ "map (\<lambda>x. x / m) l"], rule exI [of _ "map (\<lambda>x. x / m) r"])
      apply (rule exI [of _ srcs'])
      using mix cb len bound True unfolding m_def [symmetric] by simp
  next
    case False
    have cb: "audio_callback signatures frames srcs = Inr (l, r, srcs')"
      using assms(1) False by (simp add: audio_callback_def mix Let_def m_def)
    have bound: "\<forall>x\<in>set l \<union> set r. \<bar>x\<bar> \<le> 1"
      using keep_bound [OF _ ml False] keep_bound [OF _ mr False] by auto
    show ?thesis
      apply (rule exI [of _ l], rule exI [of _ r])
      apply (rule exI [of _ l], rule exI [of _ r])
      apply (rule exI [of _ srcs'])
      using mix cb len bound False unfolding m_def [symmetric] by simp
  qed
qed

lemma upt_four: "[0..<4] = [0, 1, 2, 3]"
proof -
  have "[0..<Suc (Suc (Suc (Suc 0)))] = [0, Suc 0, Suc (Suc 0), Suc (Suc (Suc 0))]"
    by (simp add: upt_conv_Cons)
  then show ?thesis by (simp add: numeral_eq_Suc)
qed

lemma replicate_four: "replicate 4 (0::real) = [0, 0, 0, 0]"
  by (simp add: numeral_eq_Suc)

lemma loud_mix_source:
  "mix_source loud_signatures 4
      \<lparr>azimuth = Some (- 80), volume = Some 1, signature = Some nm, position = Some 0\<rparr>
     = Inr ([1, - 1, 1/2, 1], [0, 0, 0, 0],
            \<lparr>azimuth = Some (- 80), volume = Some 1, signature = Some nm, position = Some 4\<rparr>)"
  by (simp add: mix_source_def loud_signatures_def dict_index_def dict_get_def
      MAX_AZIMUTH_DEGREES_def np_clip_def Let_def upt_four)

lemma loud_mix:
  "mix_sources loud_signatures 4 loud_sources (replicate 4 0) (replicate 4 0)
     = Inr ([2, - 2, 1, 2], [0, 0, 0, 0],
            [(0, \<lparr>azimuth = Some (- 80), volume = Some 1, signature = Some ''phone'',
                  position = Some 4\<rparr>),
             (1, \<lparr>azimuth = Some (- 80), volume = Some 1, signature = Some ''default'',
                  position = Some 4\<rparr>)])"
  by (simp add: loud_sources_def loud_mix_source replicate_four)

text \<open>
  The two sources sum to a peak of 2 on the left channel; the output is the sum halved.
\<close>

theorem audio_callback_witness:
  "audio_callback loud_signatures 4 loud_sources
     = Inr ([1, - 1, 1/2, 1], [0, 0, 0, 0],
            [(0, \<lparr>azimuth = Some (- 80), volume = Some 1, signature = Some ''phone'',
                  position = Some 4\<rparr>),
             (1, \<lparr>azimuth = Some (- 80), volume = Some 1, signature = Some ''default'',
                  position = Some 4\<rparr>)])"
proof -
  have h1: "0 < (4::nat)" by simp
  have h2: "map_of loud_signatures ''default'' = Some [1, - 1, 1/2]"
    by (simp add: loud_signatures_def)
  have h3: "\<forall>s\<in>snd ` set loud_signatures. s \<noteq> []"
    by (simp add: loud_signatures_def)
  have peak: "max (np_max (map abs [2, - 2, 1, 2::real])) (np_max (map abs [0, 0, 0, 0::real])) = 2"
    by (simp add: np_max_def)
  from audio_callback_peak_at_most_one [OF h1 h2 h3, of loud_sources]
  obtain left_mix right_mix out_left out_right srcs' where
    mix: "mix_sources loud_signatures 4 loud_sources (replicate 4 0) (replicate 4 0)
             = Inr (left_mix, right_mix, srcs')"
    and cb: "audio_callback loud_signatures 4 loud_sources = Inr (out_left, out_right, srcs')"
    and scale: "1 < max (np_max (map abs left_mix)) (np_max (map abs right_mix))
              \<longrightarrow> out_left = map (\<lambda>x. x / max (np_max (map abs left_mix))
                                               (np_max (map abs right_mix))) left_mix
                \<and> out_right = map (\<lambda>x. x / max (np_max (map abs left_mix))
                                                (np_max (map abs right_mix))) right_mix"
    by blast
  from mix have eqs: "left_mix = [2, - 2, 1, 2]" "right_mix = [0, 0, 0, 0]"
    "srcs' = [(0, \<lparr>azimuth = Some (- 80), volume = Some 1, signature = Some ''phone'',
                  position = Some 4\<rparr>),
             (1, \<lparr>azimuth = Some (- 80), volume = Some 1, signature = Some ''default'',
                  position = Some 4\<rparr>)]"
    unfolding loud_mix by simp_all
  from scale have "out_left = [1, - 1, 1/2, 1] \<and> out_right = [0, 0, 0, 0]"
    unfolding eqs peak by simp
  with cb eqs show ?thesis by simp
qed

end
